theory Spec2Isabelle
  imports Complex_Main "HOL-Library.Word"
begin

unbundle bit_operations_syntax

section \<open>Set-operation and inheritance planning (prepunion.c)\<close>

text \<open>
  A shallow embedding of \<^verbatim>\<open>src/backend/optimizer/prep/prepunion.c\<close>.
  Every \<^verbatim>\<open>ereport(ERROR, ...)\<close> and \<^verbatim>\<open>elog(ERROR, ...)\<close> of the source is a
  value \<open>Inl e\<close> of the result; a read through a NULL list cell (the source guards these
  by \<^verbatim>\<open>Assert\<close> only, which a production build compiles away) is \<open>Inl (Crash ...)\<close>.
  The C type \<^verbatim>\<open>double\<close> is idealised as \<open>real\<close>: the embedding keeps every
  comparison and every branch of the source, not the rounding of its arithmetic.
  Functions that live outside this file (cost model, type system, catalog, path
  constructors' estimates) are fields of the record \<open>externals\<close>.
\<close>

subsection \<open>Errors and node types\<close>

type_synonym Oid = nat
type_synonym Index = nat
type_synonym AttrNumber = int

datatype error =
    FeatureNotSupported string string
  | InternalError string
  | Crash string
  | ExternalError string
  | AttributeDoesNotExist int string

definition InvalidOid :: Oid where
  "InvalidOid = 0"

definition INT4OID :: Oid where
  "INT4OID = 23"

definition OUTER_VAR :: Index where
  "OUTER_VAR = 65001"

text \<open>The special range-table index stays a symbol when sample inputs are evaluated.\<close>

declare OUTER_VAR_def [code del]

record Var =
  varno :: Index
  varattno :: AttrNumber
  vartype :: Oid
  vartypmod :: int
  varcollid :: Oid
  varlevelsup :: Index
  varnoold :: Index
  varoattno :: AttrNumber

record Const =
  consttype :: Oid
  consttypmod :: int
  constcollid :: Oid
  constlen :: int
  constvalue :: int
  constisnull :: bool
  constbyval :: bool

text \<open>
  The expression and parse-tree nodes the modelled functions build or inspect.
  \<open>T_OpExpr\<close> stands for every interior expression node that the generic
  \<^verbatim>\<open>expression_tree_mutator\<close> rebuilds from its mutated children; \<open>T_Query\<close> is a
  sub-query with the expressions \<^verbatim>\<open>query_tree_mutator\<close> visits.
\<close>

datatype Node =
    T_Var Var
  | T_Const Const
  | T_RelabelType Node Oid int Oid
  | T_OpExpr Oid Oid "Node list"
  | T_ConvertRowtypeExpr Node Oid
  | T_RowExpr "Node list" Oid "string list"
  | T_CurrentOfExpr Index string
  | T_RangeTblRef Index
  | T_PlaceHolderVar Node "Index set" Index Index
  | T_Query "Node list"

record TargetEntry =
  expr :: Node
  resno :: AttrNumber
  resname :: string
  ressortgroupref :: Index
  resjunk :: bool

record SortGroupClause =
  tleSortGroupRef :: Index
  eqop :: Oid
  sortop :: Oid
  nulls_first :: bool
  hashable :: bool

text \<open>
  Node constructors of \<^verbatim>\<open>nodes/makefuncs.c\<close>, which is not part of the modelled file.
\<close>

definition makeVar :: "Index \<Rightarrow> AttrNumber \<Rightarrow> Oid \<Rightarrow> int \<Rightarrow> Oid \<Rightarrow> Index \<Rightarrow> Var" where
  \<comment> \<open>Modelled from the spec: makeVar (nodes/makefuncs.c) is missing; it builds a plain
      column reference from the six given fields.\<close>
  "makeVar vn va vt vtm vc vl =
     \<lparr>varno = vn, varattno = va, vartype = vt, vartypmod = vtm, varcollid = vc,
      varlevelsup = vl, varnoold = vn, varoattno = va\<rparr>"

definition makeConst :: "Oid \<Rightarrow> int \<Rightarrow> Oid \<Rightarrow> int \<Rightarrow> int \<Rightarrow> bool \<Rightarrow> bool \<Rightarrow> Const" where
  \<comment> \<open>Modelled from the spec: makeConst (nodes/makefuncs.c) is missing; it builds a
      literal constant from the seven given fields.\<close>
  "makeConst ct ctm cc cl cv isnull byval =
     \<lparr>consttype = ct, consttypmod = ctm, constcollid = cc, constlen = cl,
      constvalue = cv, constisnull = isnull, constbyval = byval\<rparr>"

definition makeRelabelType :: "Node \<Rightarrow> Oid \<Rightarrow> int \<Rightarrow> Oid \<Rightarrow> Node" where
  \<comment> \<open>Modelled from the spec: makeRelabelType (nodes/makefuncs.c) is missing; it wraps
      an expression in a relabel node exposing the given type, size modifier and
      collation.\<close>
  "makeRelabelType arg rtype rtypmod rcollid = T_RelabelType arg rtype rtypmod rcollid"

definition makeTargetEntry :: "Node \<Rightarrow> AttrNumber \<Rightarrow> string \<Rightarrow> bool \<Rightarrow> TargetEntry" where
  \<comment> \<open>Modelled from the spec: makeTargetEntry (nodes/makefuncs.c) is missing; an output
      column entry is (expression, ordinal position, display name, grouping/sort
      reference id or 0, auxiliary flag), and a fresh entry carries reference id 0.\<close>
  "makeTargetEntry e rn nm junk =
     \<lparr>expr = e, resno = rn, resname = nm, ressortgroupref = 0, resjunk = junk\<rparr>"

fun IsA_Const :: "Node \<Rightarrow> bool" where
  "IsA_Const (T_Const c) = True"
| "IsA_Const n = False"

subsection \<open>Plan fragments and the external collaborators\<close>

datatype SetOperation = SETOP_NONE | SETOP_UNION | SETOP_INTERSECT | SETOP_EXCEPT

datatype SetOpCmd =
  SETOPCMD_INTERSECT | SETOPCMD_INTERSECT_ALL | SETOPCMD_EXCEPT | SETOPCMD_EXCEPT_ALL

datatype SetOpStrategy = SETOP_SORTED | SETOP_HASHED

datatype GpSetOpType =
    PSETOP_NONE
  | PSETOP_PARALLEL_PARTITIONED
  | PSETOP_PARALLEL_REPLICATED
  | PSETOP_SEQUENTIAL_QD
  | PSETOP_SEQUENTIAL_QE
  | PSETOP_SEQUENTIAL_OUTERQUERY
  | PSETOP_GENERAL

datatype GpRoleValue =
  GP_ROLE_UNDEFINED | GP_ROLE_UTILITY | GP_ROLE_DISPATCH | GP_ROLE_EXECUTE

text \<open>
  A path is recorded by the constructor call that built it. The row, width and cost
  estimates that the path constructors of \<^verbatim>\<open>pathnode.c\<close> store in a node are read
  through \<open>externals\<close>.
  \<^item> \<open>SubqueryScanPath rti\<close>: \<^verbatim>\<open>create_subqueryscan_path\<close> over the cheapest path
    of the sub-query at range-table index \<open>rti\<close>;
  \<^item> \<open>ProjectionPath p tlist\<close>: \<^verbatim>\<open>apply_projection_to_path\<close>;
  \<^item> \<open>AppendPath ps tlist mark\<close>: \<^verbatim>\<open>create_append_path\<close> with the target list jammed
    in afterwards and the locus mark of \<^verbatim>\<open>mark_append_locus\<close>, when that is called;
  \<^item> \<open>MotionHashPath p tlist\<close>: \<^verbatim>\<open>make_motion_hash_all_targets\<close>;
  \<^item> \<open>SortPath p clauses jammed\<close>: \<^verbatim>\<open>create_sort_path\<close> on the pathkeys of the
    clauses, \<open>jammed\<close> when the target list is jammed in afterwards;
  \<^item> \<open>AggHashedPath p clauses n\<close>: \<^verbatim>\<open>create_agg_path\<close> with \<^verbatim>\<open>AGG_HASHED\<close>;
  \<^item> \<open>UpperUniquePath p n\<close>: \<^verbatim>\<open>create_upper_unique_path\<close>;
  \<^item> \<open>SetOpPath p cmd strategy clauses flagColIdx firstFlag numGroups outputRows\<close>:
    \<^verbatim>\<open>create_setop_path\<close>.
\<close>

datatype Path =
    SubqueryScanPath Index
  | ProjectionPath Path "TargetEntry list"
  | AppendPath "Path list" "TargetEntry list" "GpSetOpType option"
  | MotionHashPath Path "TargetEntry list"
  | SortPath Path "SortGroupClause list" bool
  | AggHashedPath Path "SortGroupClause list" real
  | UpperUniquePath Path real
  | SetOpPath Path SetOpCmd SetOpStrategy "SortGroupClause list" int int real real

record cost_fields =
  startup_cost :: real
  total_cost :: real

text \<open>
  What \<^verbatim>\<open>subquery_planner\<close> leaves behind for one leaf of the set-operation tree:
  the sub-query's final target list, whether planning it left outer references in
  \<^verbatim>\<open>root->plan_params\<close>, whether the sub-query groups, aggregates or de-duplicates
  (the five-way test of \<^verbatim>\<open>recurse_set_operations\<close>), and the row estimate of its
  cheapest path.
\<close>

record SubqueryPlan =
  processed_tlist :: "TargetEntry list"
  plan_params_set :: bool
  grouped_or_aggregated :: bool
  subpath_rows :: real

record externals =
  exprType :: "Node \<Rightarrow> Oid"
  exprTypmod :: "Node \<Rightarrow> int"
  exprCollation :: "Node \<Rightarrow> Oid"
  coerce_to_common_type :: "Node \<Rightarrow> Oid \<Rightarrow> string \<Rightarrow> error + Node"
  uninit_int32 :: "nat \<Rightarrow> int"
  grouping_is_sortable :: "SortGroupClause list \<Rightarrow> bool"
  grouping_is_hashable :: "SortGroupClause list \<Rightarrow> bool"
  MAXALIGN :: "64 word \<Rightarrow> 64 word"
  SizeofMinimalTupleHeader :: "64 word"
  planner_segment_count :: int
  cost_agg :: "nat \<Rightarrow> real \<Rightarrow> real \<Rightarrow> real \<Rightarrow> real \<Rightarrow> cost_fields"
  cost_sort :: "real \<Rightarrow> real \<Rightarrow> int \<Rightarrow> int \<Rightarrow> cost_fields"
  cost_group :: "nat \<Rightarrow> real \<Rightarrow> real \<Rightarrow> real \<Rightarrow> real \<Rightarrow> cost_fields"
  compare_fractional_path_costs :: "cost_fields \<Rightarrow> cost_fields \<Rightarrow> real \<Rightarrow> int"
  path_rows :: "Path \<Rightarrow> real"
  pathtarget_width :: "Path \<Rightarrow> int"
  path_startup_cost :: "Path \<Rightarrow> real"
  path_total_cost :: "Path \<Rightarrow> real"
  stack_is_too_deep :: "nat \<Rightarrow> bool"
  subquery_planner :: "Index \<Rightarrow> real \<Rightarrow> error + SubqueryPlan"
  estimate_num_groups :: "Index \<Rightarrow> TargetEntry list \<Rightarrow> real \<Rightarrow> real"
  tlist_same_datatypes :: "TargetEntry list \<Rightarrow> Oid list \<Rightarrow> bool \<Rightarrow> bool"
  tlist_same_collations :: "TargetEntry list \<Rightarrow> Oid list \<Rightarrow> bool \<Rightarrow> bool"
  choose_setop_type :: "Path list \<Rightarrow> GpSetOpType"
  adjust_setop_argument :: "GpSetOpType \<Rightarrow> Path \<Rightarrow> TargetEntry list \<Rightarrow> Path"

text \<open>The configuration variables (GUCs) the modelled functions read.\<close>

record planner_config =
  enable_hashagg :: bool
  work_mem :: int
  Gp_role :: GpRoleValue

subsection \<open>The output column builders\<close>

text \<open>
  \<^verbatim>\<open>generate_setop_tlist\<close>. The loop is the \<^verbatim>\<open>forthree\<close> over the column types, the
  column collations and the input target list, which ends with the shortest of the
  three; the reference-name list is chased by hand and read without a test, so it may
  not end first. The accumulator is the list built so far and the \<^verbatim>\<open>resno\<close> counter.
\<close>

fun generate_setop_tlist_loop ::
  "externals \<Rightarrow> Index \<Rightarrow> bool \<Rightarrow> Oid list \<Rightarrow> Oid list \<Rightarrow> TargetEntry list \<Rightarrow>
   TargetEntry list \<Rightarrow> TargetEntry list \<Rightarrow> int \<Rightarrow> error + (TargetEntry list \<times> int)"
where
  "generate_setop_tlist_loop env vno hack_constants (colType # ctlc) (colColl # cclc)
       (inputtle # itlc) rtlc tlist rno =
     (case rtlc of
        [] \<Rightarrow> Inl (Crash ''generate_setop_tlist: refnames_tlist is too short'')
      | reftle # rtlc' \<Rightarrow>
          (let e0 = (if hack_constants \<and> IsA_Const (expr inputtle) then expr inputtle
                     else T_Var (makeVar vno (resno inputtle)
                                   (exprType env (expr inputtle))
                                   (exprTypmod env (expr inputtle))
                                   (exprCollation env (expr inputtle)) 0))
           in case (if exprType env e0 \<noteq> colType
                    then coerce_to_common_type env e0 colType ''UNION/INTERSECT/EXCEPT''
                    else Inr e0) of
                Inl err \<Rightarrow> Inl err
              | Inr e1 \<Rightarrow>
                  (let e2 = (if exprCollation env e1 \<noteq> colColl
                             then makeRelabelType e1 (exprType env e1) (exprTypmod env e1) colColl
                             else e1);
                       tle = makeTargetEntry e2 rno (resname reftle) False;
                       tle' = tle\<lparr>ressortgroupref := nat (resno tle)\<rparr>
                   in generate_setop_tlist_loop env vno hack_constants ctlc cclc itlc rtlc'
                        (tlist @ [tle']) (rno + 1))))"
| "generate_setop_tlist_loop env vno hack_constants ctlc cclc itlc rtlc tlist rno =
     Inr (tlist, rno)"

definition generate_setop_tlist ::
  "externals \<Rightarrow> Oid list \<Rightarrow> Oid list \<Rightarrow> int \<Rightarrow> Index \<Rightarrow> bool \<Rightarrow> TargetEntry list \<Rightarrow>
   TargetEntry list \<Rightarrow> error + TargetEntry list"
where
  "generate_setop_tlist env colTypes colCollations flag vno hack_constants input_tlist
       refnames_tlist =
     (case generate_setop_tlist_loop env vno hack_constants colTypes colCollations
             input_tlist refnames_tlist [] 1 of
        Inl err \<Rightarrow> Inl err
      | Inr (tlist, rno) \<Rightarrow>
          (if flag \<ge> 0
           then Inr (tlist @
                  [makeTargetEntry
                     (T_Const (makeConst INT4OID (- 1) InvalidOid 4 flag False True))
                     rno ''flag'' True])
           else Inr tlist))"

text \<open>
  \<^verbatim>\<open>generate_append_tlist\<close>, first pass: the shared size modifier of every column.
  \<open>first\<close> is the test \<^verbatim>\<open>tlistl == list_head(input_tlists)\<close>. The array
  \<^verbatim>\<open>colTypmods\<close> has \<^verbatim>\<open>list_length(colTypes)\<close> cells; a sub-plan list with more
  non-junk entries than there are column types reads a NULL cell.
\<close>

fun append_typmods_sub ::
  "externals \<Rightarrow> bool \<Rightarrow> Oid list \<Rightarrow> nat \<Rightarrow> TargetEntry list \<Rightarrow> int list \<Rightarrow> error + int list"
where
  "append_typmods_sub env first curColType colindex [] colTypmods = Inr colTypmods"
| "append_typmods_sub env first curColType colindex (subtle # subtlist) colTypmods =
     (if resjunk subtle then append_typmods_sub env first curColType colindex subtlist colTypmods
      else case curColType of
             [] \<Rightarrow> Inl (Crash ''generate_append_tlist: more columns than column types'')
           | ct # rest \<Rightarrow>
               append_typmods_sub env first rest (colindex + 1) subtlist
                 (if exprType env (expr subtle) = ct
                  then (let subtypmod = exprTypmod env (expr subtle)
                        in if first then colTypmods[colindex := subtypmod]
                           else if subtypmod \<noteq> colTypmods ! colindex
                                then colTypmods[colindex := - 1]
                                else colTypmods)
                  else colTypmods[colindex := - 1]))"

fun append_typmods ::
  "externals \<Rightarrow> bool \<Rightarrow> Oid list \<Rightarrow> TargetEntry list list \<Rightarrow> int list \<Rightarrow> error + int list"
where
  "append_typmods env first colTypes [] colTypmods = Inr colTypmods"
| "append_typmods env first colTypes (subtlist # input_tlists) colTypmods =
     (case append_typmods_sub env first colTypes 0 subtlist colTypmods of
        Inl err \<Rightarrow> Inl err
      | Inr colTypmods' \<Rightarrow> append_typmods env False colTypes input_tlists colTypmods')"

text \<open>
  Second pass: one plain reference per column, against \<^verbatim>\<open>OUTER_VAR\<close>. The
  \<^verbatim>\<open>forthree\<close> runs over the column types, the collations and the reference names;
  the size modifiers are read by index from the array of the first pass.
\<close>

fun generate_append_tlist_loop ::
  "Oid list \<Rightarrow> Oid list \<Rightarrow> TargetEntry list \<Rightarrow> int list \<Rightarrow> nat \<Rightarrow> TargetEntry list \<Rightarrow> int \<Rightarrow>
   TargetEntry list \<times> int"
where
  "generate_append_tlist_loop (colType # ctlc) (colColl # cclc) (reftle # rtlc) colTypmods
       colindex tlist rno =
     (let colTypmod = colTypmods ! colindex;
          e = T_Var (makeVar OUTER_VAR rno colType colTypmod colColl 0);
          tle = makeTargetEntry e rno (resname reftle) False;
          tle' = tle\<lparr>ressortgroupref := nat (resno tle)\<rparr>
      in generate_append_tlist_loop ctlc cclc rtlc colTypmods (colindex + 1)
           (tlist @ [tle']) (rno + 1))"
| "generate_append_tlist_loop ctlc cclc rtlc colTypmods colindex tlist rno = (tlist, rno)"

definition generate_append_tlist ::
  "externals \<Rightarrow> Oid list \<Rightarrow> Oid list \<Rightarrow> bool \<Rightarrow> TargetEntry list list \<Rightarrow> TargetEntry list \<Rightarrow>
   error + TargetEntry list"
where
  "generate_append_tlist env colTypes colCollations flag input_tlists refnames_tlist =
     (case append_typmods env True colTypes input_tlists
             (map (uninit_int32 env) [0 ..< length colTypes]) of
        Inl err \<Rightarrow> Inl err
      | Inr colTypmods \<Rightarrow>
          (case generate_append_tlist_loop colTypes colCollations refnames_tlist colTypmods
                  0 [] 1 of
             (tlist, rno) \<Rightarrow>
               (if flag
                then Inr (tlist @
                       [makeTargetEntry (T_Var (makeVar OUTER_VAR rno INT4OID (- 1) InvalidOid 0))
                          rno ''flag'' True])
                else Inr tlist)))"

text \<open>
  \<^verbatim>\<open>generate_setop_grouplist\<close>: the copy of the parse-time grouping clauses, each bound
  in order to the next non-junk output column. A non-junk column with no clause left
  reads a NULL cell; clauses left over keep their reference.
\<close>

fun generate_setop_grouplist_loop ::
  "TargetEntry list \<Rightarrow> SortGroupClause list \<Rightarrow> error + SortGroupClause list"
where
  "generate_setop_grouplist_loop [] lg = Inr lg"
| "generate_setop_grouplist_loop (tle # targetlist) lg =
     (if resjunk tle then generate_setop_grouplist_loop targetlist lg
      else case lg of
             [] \<Rightarrow> Inl (Crash ''generate_setop_grouplist: more columns than grouping clauses'')
           | sgc # lg' \<Rightarrow>
               (case generate_setop_grouplist_loop targetlist lg' of
                  Inl err \<Rightarrow> Inl err
                | Inr rest \<Rightarrow> Inr (sgc\<lparr>tleSortGroupRef := ressortgroupref tle\<rparr> # rest)))"

definition generate_setop_grouplist ::
  "SortGroupClause list \<Rightarrow> TargetEntry list \<Rightarrow> error + SortGroupClause list"
where
  "generate_setop_grouplist op_groupClauses targetlist =
     generate_setop_grouplist_loop targetlist op_groupClauses"

subsection \<open>The hash-versus-sort chooser\<close>

text \<open>
  \<^verbatim>\<open>choose_hashed_setop\<close>. \<open>root_tuple_fraction\<close> is \<^verbatim>\<open>root->tuple_fraction\<close>.
  \<^verbatim>\<open>hashentrysize\<close> has the C type \<^verbatim>\<open>Size\<close>, an unsigned 64-bit integer;
  \<^verbatim>\<open>work_mem * 1024L\<close> is a signed 64-bit product of a 32-bit setting, which cannot
  overflow. The division \<^verbatim>\<open>tuple_fraction /= dNumOutputRows\<close> is the division of
  \<open>real\<close>: at \<open>dNumOutputRows = 0\<close> the C double is infinite where HOL gives 0; no
  statement below depends on the quotient.
\<close>

definition hashentrysize :: "externals \<Rightarrow> Path \<Rightarrow> 64 word" where
  "hashentrysize env input_path =
     MAXALIGN env (word_of_int (pathtarget_width env input_path)) +
     MAXALIGN env (SizeofMinimalTupleHeader env)"

text \<open>
  The dummy path \<^verbatim>\<open>hashed_p\<close> after \<^verbatim>\<open>cost_agg\<close>, the dummy path \<^verbatim>\<open>sorted_p\<close>
  after \<^verbatim>\<open>cost_sort\<close> and \<^verbatim>\<open>cost_group\<close>, and the local \<^verbatim>\<open>tuple_fraction\<close>.
\<close>

definition setop_hashed_p :: "externals \<Rightarrow> nat \<Rightarrow> Path \<Rightarrow> real \<Rightarrow> cost_fields" where
  "setop_hashed_p env numGroupCols input_path dNumGroups =
     cost_agg env numGroupCols (dNumGroups / real_of_int (planner_segment_count env))
       (path_startup_cost env input_path) (path_total_cost env input_path)
       (path_rows env input_path)"

definition setop_sorted_p ::
  "externals \<Rightarrow> planner_config \<Rightarrow> nat \<Rightarrow> Path \<Rightarrow> real \<Rightarrow> cost_fields"
where
  "setop_sorted_p env cfg numGroupCols input_path dNumGroups =
     (let sorted_p0 = \<lparr>startup_cost = path_startup_cost env input_path,
                       total_cost = path_total_cost env input_path\<rparr>;
          sorted_p1 = cost_sort env (total_cost sorted_p0) (path_rows env input_path)
                        (pathtarget_width env input_path) (work_mem cfg)
      in cost_group env numGroupCols dNumGroups (startup_cost sorted_p1)
           (total_cost sorted_p1) (path_rows env input_path))"

definition setop_tuple_fraction :: "real \<Rightarrow> real \<Rightarrow> real" where
  "setop_tuple_fraction root_tuple_fraction dNumOutputRows =
     (if root_tuple_fraction \<ge> 1 then root_tuple_fraction / dNumOutputRows
      else root_tuple_fraction)"

definition choose_hashed_setop ::
  "externals \<Rightarrow> planner_config \<Rightarrow> real \<Rightarrow> SortGroupClause list \<Rightarrow> Path \<Rightarrow> real \<Rightarrow> real \<Rightarrow>
   string \<Rightarrow> error + bool"
where
  "choose_hashed_setop env cfg root_tuple_fraction groupClauses input_path dNumGroups
       dNumOutputRows construct_name =
     (let numGroupCols = length groupClauses;
          can_sort = grouping_is_sortable env groupClauses;
          can_hash = grouping_is_hashable env groupClauses
      in if \<not> (can_hash \<and> can_sort) then
           (if can_hash then Inr True
            else if can_sort then Inr False
            else Inl (FeatureNotSupported (''could not implement '' @ construct_name)
                   ''Some of the datatypes only support hashing, while others only support sorting.''))
         else if \<not> enable_hashagg cfg then Inr False
         else if real (unat (hashentrysize env input_path)) * dNumGroups
                   > real_of_int (work_mem cfg * 1024)
              then Inr False
         else if compare_fractional_path_costs env
                   (setop_hashed_p env numGroupCols input_path dNumGroups)
                   (setop_sorted_p env cfg numGroupCols input_path dNumGroups)
                   (setop_tuple_fraction root_tuple_fraction dNumOutputRows) < 0
              then Inr True
         else Inr False)"

subsection \<open>The set-operation planner\<close>

text \<open>
  The parsed set-operation tree: a leaf is a range-table reference to a sub-query, a
  combine node carries the operation, the ALL flag, both arguments, the declared
  column types and collations and the parse-time grouping clauses. \<open>OtherSetOpNode\<close>
  is a node of any other tag.
\<close>

datatype SetOpNode =
    RangeTblRef Index
  | SetOperationStmt SetOperation bool SetOpNode SetOpNode "Oid list" "Oid list"
      "SortGroupClause list"
  | OtherSetOpNode int

text \<open>The fields of \<^verbatim>\<open>top_union\<close> that \<^verbatim>\<open>recurse_union_children\<close> reads.\<close>

record UnionTop =
  top_op :: SetOperation
  top_all :: bool
  top_colTypes :: "Oid list"
  top_colCollations :: "Oid list"

text \<open>
  Modelled from the spec: \<^verbatim>\<open>adjust_setop_arguments\<close> (cdb/cdbsetop.c) is missing. The
  external collaborator decides for each input whether it needs a redistribution
  step; the cells of the path list are replaced in place, in step with the list of
  target lists.
\<close>

fun adjust_setop_arguments ::
  "externals \<Rightarrow> Path list \<Rightarrow> TargetEntry list list \<Rightarrow> GpSetOpType \<Rightarrow> Path list"
where
  "adjust_setop_arguments env (subpath # pathlist) (subtlist # tlist_list) optype =
     adjust_setop_argument env optype subpath subtlist #
     adjust_setop_arguments env pathlist tlist_list optype"
| "adjust_setop_arguments env pathlist tlist_list optype = pathlist"

text \<open>
  The block \<^verbatim>\<open>CDB: Decide on approach, condition argument plans to suit\<close>, which
  \<^verbatim>\<open>generate_union_path\<close> and \<^verbatim>\<open>generate_nonunion_path\<close> share word for word.
\<close>

definition cdb_decide_approach ::
  "externals \<Rightarrow> planner_config \<Rightarrow> Path list \<Rightarrow> TargetEntry list list \<Rightarrow> GpSetOpType \<times> Path list"
where
  "cdb_decide_approach env cfg pathlist tlist_list =
     (if Gp_role cfg = GP_ROLE_DISPATCH then
        (let optype = choose_setop_type env pathlist
         in (optype, adjust_setop_arguments env pathlist tlist_list optype))
      else if Gp_role cfg = GP_ROLE_UTILITY \<or> Gp_role cfg = GP_ROLE_EXECUTE then
        (PSETOP_SEQUENTIAL_QD, pathlist)
      else (PSETOP_NONE, pathlist))"

text \<open>\<^verbatim>\<open>make_union_unique\<close>: the de-duplication step on top of a UNION's Append.\<close>

definition make_union_unique ::
  "externals \<Rightarrow> planner_config \<Rightarrow> real \<Rightarrow> SortGroupClause list \<Rightarrow> Path \<Rightarrow> TargetEntry list \<Rightarrow>
   error + Path"
where
  "make_union_unique env cfg root_tuple_fraction op_groupClauses path tlist =
     (case generate_setop_grouplist op_groupClauses tlist of
        Inl err \<Rightarrow> Inl err
      | Inr groupList \<Rightarrow>
          (if groupList = [] then
             Inl (FeatureNotSupported (''UNION'' @ '' over no columns is not supported'') [])
           else
             (let dNumGroups = path_rows env path
              in case choose_hashed_setop env cfg root_tuple_fraction groupList path
                        dNumGroups dNumGroups ''UNION'' of
                   Inl err \<Rightarrow> Inl err
                 | Inr use_hash \<Rightarrow>
                     (if use_hash then Inr (AggHashedPath path groupList dNumGroups)
                      else Inr (UpperUniquePath (SortPath path groupList True) dNumGroups)))))"

text \<open>
  \<^verbatim>\<open>generate_union_path\<close> from the Append onwards, given the flattened child paths
  and their target lists. \<open>cur_fraction\<close> is \<^verbatim>\<open>root->tuple_fraction\<close> as it stands
  there: 0 for a plain UNION, which is restored only at the end of the function, after
  the de-duplication step has been chosen.
\<close>

definition generate_union_path_append ::
  "externals \<Rightarrow> planner_config \<Rightarrow> real \<Rightarrow> bool \<Rightarrow> Oid list \<Rightarrow> Oid list \<Rightarrow> SortGroupClause list \<Rightarrow>
   Path list \<Rightarrow> TargetEntry list list \<Rightarrow> TargetEntry list \<Rightarrow> bool \<Rightarrow>
   error + (Path \<times> TargetEntry list \<times> real option)"
where
  "generate_union_path_append env cfg cur_fraction op_all op_colTypes op_colCollations
       op_groupClauses pathlist0 tlist_list refnames_tlist want_groups =
     (case cdb_decide_approach env cfg pathlist0 tlist_list of
        (optype, pathlist) \<Rightarrow>
          (case generate_append_tlist env op_colTypes op_colCollations False tlist_list
                  refnames_tlist of
             Inl err \<Rightarrow> Inl err
           | Inr tlist \<Rightarrow>
               (let path = AppendPath pathlist tlist None
                in case (if \<not> op_all
                         then make_union_unique env cfg cur_fraction op_groupClauses
                                (if optype = PSETOP_PARALLEL_PARTITIONED
                                 then MotionHashPath path tlist else path)
                                tlist
                         else Inr path) of
                     Inl err \<Rightarrow> Inl err
                   | Inr path' \<Rightarrow>
                       Inr (path', tlist,
                            if want_groups then Some (path_rows env path') else None))))"

text \<open>
  The block \<^verbatim>\<open>CDB: Collocate non-distinct tuples prior to sort or hash\<close> of
  \<^verbatim>\<open>generate_nonunion_path\<close>: under \<^verbatim>\<open>PSETOP_PARALLEL_PARTITIONED\<close> every input
  gets a hash motion on its own target list (a \<^verbatim>\<open>forboth\<close> over the two lists).
\<close>

definition cdb_collocate_inputs ::
  "GpSetOpType \<Rightarrow> Path list \<Rightarrow> TargetEntry list list \<Rightarrow> Path list"
where
  "cdb_collocate_inputs optype pathlist tlist_list =
     (if optype = PSETOP_PARALLEL_PARTITIONED
      then map (\<lambda>(subpath, subtlist). MotionHashPath subpath subtlist)
             (zip pathlist tlist_list)
      else pathlist)"

text \<open>The \<^verbatim>\<open>switch (op->op)\<close> of \<^verbatim>\<open>generate_nonunion_path\<close> that selects the command.\<close>

definition nonunion_setop_cmd :: "SetOperation \<Rightarrow> bool \<Rightarrow> error + SetOpCmd" where
  "nonunion_setop_cmd op_kind op_all =
     (case op_kind of
        SETOP_INTERSECT \<Rightarrow> Inr (if op_all then SETOPCMD_INTERSECT_ALL else SETOPCMD_INTERSECT)
      | SETOP_EXCEPT \<Rightarrow> Inr (if op_all then SETOPCMD_EXCEPT_ALL else SETOPCMD_EXCEPT)
      | _ \<Rightarrow> Inl (InternalError ''unrecognized set op''))"

text \<open>
  \<^verbatim>\<open>generate_nonunion_path\<close> from the ordering of the two planned children onwards.
  \<open>save_fraction\<close> is the tuple fraction of the caller, restored right after the
  children were planned. \<open>left_first\<close> is the test of the source's
  \<^verbatim>\<open>if (op->op == SETOP_EXCEPT || dLeftGroups <= dRightGroups)\<close>, whose two branches
  assign \<^verbatim>\<open>pathlist\<close>, \<^verbatim>\<open>tlist_list\<close> and \<^verbatim>\<open>firstFlag\<close>.
\<close>

definition generate_nonunion_path_combine ::
  "externals \<Rightarrow> planner_config \<Rightarrow> real \<Rightarrow> SetOperation \<Rightarrow> bool \<Rightarrow> Oid list \<Rightarrow> Oid list \<Rightarrow>
   SortGroupClause list \<Rightarrow> Path \<Rightarrow> TargetEntry list \<Rightarrow> real \<Rightarrow> Path \<Rightarrow> TargetEntry list \<Rightarrow> real \<Rightarrow>
   TargetEntry list \<Rightarrow> bool \<Rightarrow> error + (Path \<times> TargetEntry list \<times> real option)"
where
  "generate_nonunion_path_combine env cfg save_fraction op_kind op_all op_colTypes
       op_colCollations op_groupClauses lpath lpath_tlist dLeftGroups rpath rpath_tlist
       dRightGroups refnames_tlist want_groups =
     (let left_first = (op_kind = SETOP_EXCEPT \<or> dLeftGroups \<le> dRightGroups);
          pathlist0 = (if left_first then [lpath, rpath] else [rpath, lpath]);
          tlist_list = (if left_first then [lpath_tlist, rpath_tlist]
                        else [rpath_tlist, lpath_tlist]);
          firstFlag = (if left_first then 0 else 1 :: int);
          optype = fst (cdb_decide_approach env cfg pathlist0 tlist_list);
          pathlist1 = snd (cdb_decide_approach env cfg pathlist0 tlist_list);
          pathlist = cdb_collocate_inputs optype pathlist1 tlist_list;
          op_name = (if op_kind = SETOP_INTERSECT then ''INTERSECT'' else ''EXCEPT'')
      in case generate_append_tlist env op_colTypes op_colCollations True tlist_list
                refnames_tlist of
           Inl err \<Rightarrow> Inl err
         | Inr tlist \<Rightarrow>
            (case generate_setop_grouplist op_groupClauses tlist of
               Inl err \<Rightarrow> Inl err
             | Inr groupList \<Rightarrow>
                (if groupList = [] then
                   Inl (FeatureNotSupported (op_name @ '' over no columns is not supported'') [])
                 else
                   (let path = AppendPath pathlist tlist (Some optype);
                        dNumGroups =
                          (if op_kind = SETOP_EXCEPT then dLeftGroups
                           else (if dLeftGroups < dRightGroups then dLeftGroups
                                 else dRightGroups));
                        dNumOutputRows =
                          (if op_kind = SETOP_EXCEPT
                           then (if op_all then path_rows env lpath else dNumGroups)
                           else (if op_all
                                 then (if path_rows env lpath < path_rows env rpath
                                       then path_rows env lpath else path_rows env rpath)
                                 else dNumGroups))
                    in case choose_hashed_setop env cfg save_fraction groupList path
                              dNumGroups dNumOutputRows op_name of
                         Inl err \<Rightarrow> Inl err
                       | Inr use_hash \<Rightarrow>
                          (case nonunion_setop_cmd op_kind op_all of
                             Inl err \<Rightarrow> Inl err
                           | Inr cmd \<Rightarrow>
                               Inr (SetOpPath
                                      (if \<not> use_hash then SortPath path groupList False
                                       else path)
                                      cmd
                                      (if use_hash then SETOP_HASHED else SETOP_SORTED)
                                      groupList
                                      (int (length op_colTypes) + 1)
                                      (if use_hash then firstFlag else - 1)
                                      dNumGroups dNumOutputRows,
                                    tlist,
                                    if want_groups then Some dNumGroups else None))))))"

text \<open>
  The recursive driver: \<^verbatim>\<open>recurse_set_operations\<close>, \<^verbatim>\<open>generate_union_path\<close>,
  \<^verbatim>\<open>generate_nonunion_path\<close> and \<^verbatim>\<open>recurse_union_children\<close>.
  \<^item> \<open>tuple_fraction\<close> is \<^verbatim>\<open>root->tuple_fraction\<close> at the call; the source saves,
    overwrites and restores the field, which is the argument passed down here.
  \<^item> \<open>depth\<close> counts the enclosing calls; \<^verbatim>\<open>check_stack_depth\<close> is the external
    test \<open>stack_is_too_deep\<close> on it.
  \<^item> \<open>want_groups\<close> is \<^verbatim>\<open>pNumGroups != NULL\<close>, and the third component of a result is
    \<^verbatim>\<open>*pNumGroups\<close>.
  \<^item> The leaf case plans the sub-query through \<open>subquery_planner\<close>, puts a
    SubqueryScan on its cheapest path and projects it onto the set-operation target
    list.
  \<^item> C leaves open which argument of \<^verbatim>\<open>list_concat(recurse_union_children(larg),
    recurse_union_children(rarg))\<close> is evaluated first; the model plans the left one
    first. The order decides only which error is reported when both fail.
\<close>

function (sequential) recurse_set_operations ::
  "externals \<Rightarrow> planner_config \<Rightarrow> nat \<Rightarrow> real \<Rightarrow> SetOpNode \<Rightarrow> Oid list \<Rightarrow> Oid list \<Rightarrow> bool \<Rightarrow>
   int \<Rightarrow> TargetEntry list \<Rightarrow> bool \<Rightarrow> error + (Path \<times> TargetEntry list \<times> real option)"
and generate_union_path ::
  "externals \<Rightarrow> planner_config \<Rightarrow> nat \<Rightarrow> real \<Rightarrow> SetOpNode \<Rightarrow> TargetEntry list \<Rightarrow> bool \<Rightarrow>
   error + (Path \<times> TargetEntry list \<times> real option)"
and generate_nonunion_path ::
  "externals \<Rightarrow> planner_config \<Rightarrow> nat \<Rightarrow> real \<Rightarrow> SetOpNode \<Rightarrow> TargetEntry list \<Rightarrow> bool \<Rightarrow>
   error + (Path \<times> TargetEntry list \<times> real option)"
and recurse_union_children ::
  "externals \<Rightarrow> planner_config \<Rightarrow> nat \<Rightarrow> real \<Rightarrow> SetOpNode \<Rightarrow> UnionTop \<Rightarrow> TargetEntry list \<Rightarrow>
   error + (Path list \<times> TargetEntry list list)"
where
  "recurse_set_operations env cfg depth tuple_fraction (RangeTblRef rtindex) colTypes colCollations
       junkOK flag refnames_tlist want_groups =
     (if stack_is_too_deep env depth then Inl (ExternalError ''stack depth limit exceeded'')
      else case subquery_planner env rtindex tuple_fraction of
             Inl err \<Rightarrow> Inl err
           | Inr sub \<Rightarrow>
              (if plan_params_set sub
               then Inl (InternalError ''unexpected outer reference in set operation subquery'')
               else case generate_setop_tlist env colTypes colCollations flag rtindex True
                           (processed_tlist sub) refnames_tlist of
                      Inl err \<Rightarrow> Inl err
                    | Inr tlist \<Rightarrow>
                        Inr (ProjectionPath (SubqueryScanPath rtindex) tlist, tlist,
                             if want_groups
                             then Some (if grouped_or_aggregated sub then subpath_rows sub
                                        else estimate_num_groups env rtindex (processed_tlist sub)
                                               (subpath_rows sub))
                             else None)))"
| "recurse_set_operations env cfg depth tuple_fraction
       (SetOperationStmt opk al l r ctys ccolls gcl) colTypes colCollations
       junkOK flag refnames_tlist want_groups =
     (if stack_is_too_deep env depth then Inl (ExternalError ''stack depth limit exceeded'')
      else case (if opk = SETOP_UNION
                 then generate_union_path env cfg (Suc depth) tuple_fraction
                        (SetOperationStmt opk al l r ctys ccolls gcl) refnames_tlist want_groups
                 else generate_nonunion_path env cfg (Suc depth) tuple_fraction
                        (SetOperationStmt opk al l r ctys ccolls gcl) refnames_tlist want_groups) of
             Inl err \<Rightarrow> Inl err
           | Inr (path, tlist, ngroups) \<Rightarrow>
              (if flag \<ge> 0 \<or> \<not> tlist_same_datatypes env tlist colTypes junkOK
                  \<or> \<not> tlist_same_collations env tlist colCollations junkOK
               then case generate_setop_tlist env colTypes colCollations flag OUTER_VAR False
                           tlist refnames_tlist of
                      Inl err \<Rightarrow> Inl err
                    | Inr tlist' \<Rightarrow> Inr (ProjectionPath path tlist', tlist', ngroups)
               else Inr (path, tlist, ngroups)))"
| "recurse_set_operations env cfg depth tuple_fraction (OtherSetOpNode tag) colTypes colCollations
       junkOK flag refnames_tlist want_groups =
     (if stack_is_too_deep env depth then Inl (ExternalError ''stack depth limit exceeded'')
      else Inl (InternalError ''unrecognized node type''))"
| "generate_union_path env cfg depth tuple_fraction (SetOperationStmt opk al l r ctys ccolls gcl)
       refnames_tlist want_groups =
     (let cur_fraction = (if \<not> al then 0 else tuple_fraction);
          top_union = \<lparr>top_op = opk, top_all = al, top_colTypes = ctys,
                       top_colCollations = ccolls\<rparr>
      in case recurse_union_children env cfg (Suc depth) cur_fraction l top_union
                refnames_tlist of
           Inl err \<Rightarrow> Inl err
         | Inr (pathlist1, child_tlists1) \<Rightarrow>
            (case recurse_union_children env cfg (Suc depth) cur_fraction r top_union
                    refnames_tlist of
               Inl err \<Rightarrow> Inl err
             | Inr (pathlist2, child_tlists2) \<Rightarrow>
                 generate_union_path_append env cfg cur_fraction al ctys ccolls gcl
                   (pathlist1 @ pathlist2) (child_tlists1 @ child_tlists2)
                   refnames_tlist want_groups))"
| "generate_union_path env cfg depth tuple_fraction setOp refnames_tlist want_groups =
     Inl (Crash ''generate_union_path: not a SetOperationStmt'')"
| "generate_nonunion_path env cfg depth tuple_fraction (SetOperationStmt opk al l r ctys ccolls gcl)
       refnames_tlist want_groups =
     (case recurse_set_operations env cfg (Suc depth) 0 l ctys ccolls False 0
             refnames_tlist True of
        Inl err \<Rightarrow> Inl err
      | Inr (lpath, lpath_tlist, dLeft) \<Rightarrow>
         (case recurse_set_operations env cfg (Suc depth) 0 r ctys ccolls False 1
                 refnames_tlist True of
            Inl err \<Rightarrow> Inl err
          | Inr (rpath, rpath_tlist, dRight) \<Rightarrow>
             (case (dLeft, dRight) of
                (Some dLeftGroups, Some dRightGroups) \<Rightarrow>
                  generate_nonunion_path_combine env cfg tuple_fraction opk al ctys ccolls gcl
                    lpath lpath_tlist dLeftGroups rpath rpath_tlist dRightGroups
                    refnames_tlist want_groups
              | _ \<Rightarrow> Inl (Crash ''generate_nonunion_path: group estimate not set''))))"
| "generate_nonunion_path env cfg depth tuple_fraction setOp refnames_tlist want_groups =
     Inl (Crash ''generate_nonunion_path: not a SetOperationStmt'')"
| "recurse_union_children env cfg depth tuple_fraction (SetOperationStmt opk al l r ctys ccolls gcl)
       top_union refnames_tlist =
     (if opk = top_op top_union \<and> (al = top_all top_union \<or> al)
         \<and> ctys = top_colTypes top_union
      then case recurse_union_children env cfg (Suc depth) tuple_fraction l top_union refnames_tlist of
             Inl err \<Rightarrow> Inl err
           | Inr (pathlist1, child_tlists1) \<Rightarrow>
              (case recurse_union_children env cfg (Suc depth) tuple_fraction r top_union
                      refnames_tlist of
                 Inl err \<Rightarrow> Inl err
               | Inr (pathlist2, child_tlists2) \<Rightarrow>
                   Inr (pathlist1 @ pathlist2, child_tlists1 @ child_tlists2))
      else case recurse_set_operations env cfg (Suc depth) tuple_fraction
                  (SetOperationStmt opk al l r ctys ccolls gcl)
                  (top_colTypes top_union) (top_colCollations top_union) False (- 1)
                  refnames_tlist False of
             Inl err \<Rightarrow> Inl err
           | Inr (path, child_tlist, ngroups) \<Rightarrow> Inr ([path], [child_tlist]))"
| "recurse_union_children env cfg depth tuple_fraction setOp top_union refnames_tlist =
     (case recurse_set_operations env cfg (Suc depth) tuple_fraction setOp
             (top_colTypes top_union) (top_colCollations top_union) False (- 1)
             refnames_tlist False of
        Inl err \<Rightarrow> Inl err
      | Inr (path, child_tlist, ngroups) \<Rightarrow> Inr ([path], [child_tlist]))"

  by pat_completeness auto

termination
  apply (relation "measure (\<lambda>x. case x of
      Inl (Inl (env, cfg, d, f, t, rest)) \<Rightarrow> 3 * size t + 1
    | Inl (Inr (env, cfg, d, f, t, rest)) \<Rightarrow> 3 * size t
    | Inr (Inl (env, cfg, d, f, t, rest)) \<Rightarrow> 3 * size t
    | Inr (Inr (env, cfg, d, f, t, rest)) \<Rightarrow> 3 * size t + 2)")
  apply simp_all
  done

declare recurse_set_operations.simps [simp del]
declare generate_union_path.simps [simp del]
declare generate_nonunion_path.simps [simp del]
declare recurse_union_children.simps [simp del]

subsection \<open>The convention on grouping/sort references\<close>

text \<open>
  The convention of the set-operation target lists (the source: ``all non-resjunk
  columns in a setop tree have ressortgroupref equal to their resno''): the entries
  are numbered \<open>n\<close>, \<open>n + 1\<close>, ... by \<^verbatim>\<open>resno\<close>; a non-junk entry has
  \<^verbatim>\<open>ressortgroupref = resno\<close>, a junk entry has \<^verbatim>\<open>ressortgroupref = 0\<close>.
\<close>

fun setop_tlist_refs_ok :: "int \<Rightarrow> TargetEntry list \<Rightarrow> bool" where
  "setop_tlist_refs_ok n [] = True"
| "setop_tlist_refs_ok n (tle # tlist) =
     (resno tle = n
      \<and> (if resjunk tle then ressortgroupref tle = 0
         else int (ressortgroupref tle) = resno tle)
      \<and> setop_tlist_refs_ok (n + 1) tlist)"

subsection \<open>Reading a planned tree\<close>

text \<open>
  The range-table indexes of the leaves of a set-operation tree, left to right.
\<close>

fun setop_leaves :: "SetOpNode \<Rightarrow> Index list" where
  "setop_leaves (RangeTblRef rtindex) = [rtindex]"
| "setop_leaves (SetOperationStmt opk al l r ctys ccolls gcl) = setop_leaves l @ setop_leaves r"
| "setop_leaves (OtherSetOpNode tag) = []"

text \<open>
  The test under which \<^verbatim>\<open>recurse_union_children\<close> folds a combine node into its
  parent (``Same UNION, so fold children into parent's subpath list''), required of
  every combine node of a subtree.
\<close>

fun same_union :: "UnionTop \<Rightarrow> SetOpNode \<Rightarrow> bool" where
  "same_union top_union (SetOperationStmt opk al l r ctys ccolls gcl) =
     (opk = top_op top_union \<and> (al = top_all top_union \<or> al)
      \<and> ctys = top_colTypes top_union
      \<and> same_union top_union l \<and> same_union top_union r)"
| "same_union top_union setOp = True"

text \<open>
  The inputs of the topmost Append of a path, below any de-duplication, sort, motion
  or set-operation step; the number of de-duplication steps above that Append; and the
  sub-query a projected sub-query scan reads.
\<close>

fun append_inputs :: "Path \<Rightarrow> Path list" where
  "append_inputs (AppendPath ps tlist mark) = ps"
| "append_inputs (AggHashedPath p clauses n) = append_inputs p"
| "append_inputs (UpperUniquePath p n) = append_inputs p"
| "append_inputs (SortPath p clauses jammed) = append_inputs p"
| "append_inputs (MotionHashPath p tlist) = append_inputs p"
| "append_inputs (SetOpPath p cmd strategy clauses fc ff n rws) = append_inputs p"
| "append_inputs (ProjectionPath p tlist) = []"
| "append_inputs (SubqueryScanPath rti) = []"

fun dedup_steps :: "Path \<Rightarrow> nat" where
  "dedup_steps (AppendPath ps tlist mark) = 0"
| "dedup_steps (AggHashedPath p clauses n) = Suc (dedup_steps p)"
| "dedup_steps (UpperUniquePath p n) = Suc (dedup_steps p)"
| "dedup_steps (SortPath p clauses jammed) = dedup_steps p"
| "dedup_steps (MotionHashPath p tlist) = dedup_steps p"
| "dedup_steps (SetOpPath p cmd strategy clauses fc ff n rws) = dedup_steps p"
| "dedup_steps (ProjectionPath p tlist) = 0"
| "dedup_steps (SubqueryScanPath rti) = 0"

fun scanned_rel :: "Path \<Rightarrow> Index option" where
  "scanned_rel (ProjectionPath (SubqueryScanPath rti) tlist) = Some rti"
| "scanned_rel p = None"

text \<open>
  The shape of a planning result: the number of inputs of the topmost Append, the
  number of de-duplication steps above it, and the same two numbers for each input.
\<close>

definition plan_shape ::
  "error + (Path \<times> TargetEntry list \<times> real option) \<Rightarrow> (nat \<times> nat \<times> (nat \<times> nat) list) option"
where
  "plan_shape res =
     (case res of
        Inl err \<Rightarrow> None
      | Inr (path, tlist, ngroups) \<Rightarrow>
          Some (length (append_inputs path), dedup_steps path,
                map (\<lambda>p. (length (append_inputs p), dedup_steps p)) (append_inputs path)))"

subsection \<open>Inheritance expansion\<close>

text \<open>
  The catalog's view of a relation, as the relation cache hands it out: the OID, the
  name, \<^verbatim>\<open>rd_rel->relkind\<close> and \<^verbatim>\<open>rd_rel->reltype\<close>, the attributes of the tuple
  descriptor and the test \<^verbatim>\<open>RELATION_IS_OTHER_TEMP\<close>.
\<close>

record FormData_pg_attribute =
  attname :: string
  atttypid :: Oid
  atttypmod :: int
  attcollation :: Oid
  attisdropped :: bool

record Relation =
  rd_id :: Oid
  rd_relname :: string
  rd_rel_relkind :: nat
  rd_rel_reltype :: Oid
  rd_att :: "FormData_pg_attribute list"
  rd_other_temp :: bool

datatype RTEKind =
  RTE_RELATION | RTE_SUBQUERY | RTE_JOIN | RTE_FUNCTION | RTE_VALUES | RTE_CTE

datatype LOCKMODE =
  NoLock | AccessShareLock | RowShareLock | RowExclusiveLock | ExclusiveLock

record RangeTblEntry =
  rtekind :: RTEKind
  relid :: Oid
  relkind :: nat
  inh :: bool
  requiredPerms :: nat
  selectedCols :: "int set"
  insertedCols :: "int set"
  updatedCols :: "int set"
  eref_colnames :: "string list"

text \<open>
  The translation record. A slot of \<^verbatim>\<open>translated_vars\<close> is \<open>None\<close> for the NULL
  that stands for a dropped parent column.
\<close>

record AppendRelInfo =
  parent_relid :: Index
  child_relid :: Index
  parent_reltype :: Oid
  child_reltype :: Oid
  translated_vars :: "Node option list"
  parent_reloid :: Oid

record PlanRowMark =
  rti :: Index
  prti :: Index
  rowmarkId :: Index
  markType :: nat
  allMarkTypes :: nat
  strength :: nat
  waitPolicy :: nat
  isParent :: bool
  canOptSelectLockingClause :: bool

record DynamicScanInfo =
  dsi_parentOid :: Oid
  dsi_rtindex :: Index
  dsi_hasSelector :: bool
  dsi_children :: "Index set"
  dsi_partKeyAttnos :: "int list"
  dsi_dynamicScanId :: nat

text \<open>
  The fields of \<^verbatim>\<open>PlannerInfo\<close> and of its \<^verbatim>\<open>parse\<close> tree that inheritance
  expansion reads and writes.
\<close>

record PlannerInfo =
  rtable :: "RangeTblEntry list"
  resultRelation :: Index
  rowMarks :: "PlanRowMark list"
  append_rel_list :: "AppendRelInfo list"
  dynamicScans :: "DynamicScanInfo list"

text \<open>
  The catalog functions and constants that are not in the modelled file. Locks are
  not modelled beyond the lock mode handed to \<open>find_all_inheritors\<close>; opening and
  closing a relation has no effect on the planner state.
\<close>

record catalog =
  has_subclass :: "Oid \<Rightarrow> bool"
  rel_is_partitioned :: "Oid \<Rightarrow> bool"
  find_all_inheritors :: "Oid \<Rightarrow> LOCKMODE \<Rightarrow> Oid list"
  rel_is_leaf_partition :: "Oid \<Rightarrow> bool"
  heap_open :: "Oid \<Rightarrow> Relation"
  rel_partition_key_attrs :: "Oid \<Rightarrow> int list"
  select_rowmark_type :: "RangeTblEntry \<Rightarrow> nat \<Rightarrow> nat"
  get_rel_name :: "Oid \<Rightarrow> string"
  FirstLowInvalidHeapAttributeNumber :: int

definition InvalidAttrNumber :: AttrNumber where
  "InvalidAttrNumber = 0"

definition quoted :: "string \<Rightarrow> string" where
  "quoted s = CHR 0x22 # s @ [CHR 0x22]"

text \<open>
  \<^verbatim>\<open>make_inh_translation_list\<close>. The inner \<^verbatim>\<open>for\<close> loop that searches the child's
  columns by name is \<open>search_new_attno\<close>. The pointer test
  \<^verbatim>\<open>oldrelation == newrelation\<close> is the equality of the OIDs: the relation cache has
  one entry per relation.
\<close>

fun search_new_attno :: "string \<Rightarrow> FormData_pg_attribute list \<Rightarrow> nat \<Rightarrow> nat option" where
  "search_new_attno nm [] new_attno = None"
| "search_new_attno nm (att # atts) new_attno =
     (if \<not> attisdropped att \<and> nm = attname att then Some new_attno
      else search_new_attno nm atts (Suc new_attno))"

fun make_inh_translation_list_loop ::
  "bool \<Rightarrow> FormData_pg_attribute list \<Rightarrow> string \<Rightarrow> Index \<Rightarrow> FormData_pg_attribute list \<Rightarrow>
   nat \<Rightarrow> Node option list \<Rightarrow> error + Node option list"
where
  "make_inh_translation_list_loop same new_attrs new_relname newvarno [] old_attno vars =
     Inr vars"
| "make_inh_translation_list_loop same new_attrs new_relname newvarno (att # old_attrs)
       old_attno vars =
     (if attisdropped att then
        make_inh_translation_list_loop same new_attrs new_relname newvarno old_attrs
          (Suc old_attno) (vars @ [None])
      else if same then
        make_inh_translation_list_loop same new_attrs new_relname newvarno old_attrs
          (Suc old_attno)
          (vars @ [Some (T_Var (makeVar newvarno (int old_attno + 1) (atttypid att)
                                  (atttypmod att) (attcollation att) 0))])
      else
        (case (if old_attno < length new_attrs
                  \<and> \<not> attisdropped (new_attrs ! old_attno)
                  \<and> attname att = attname (new_attrs ! old_attno)
               then Some old_attno
               else search_new_attno (attname att) new_attrs 0) of
           None \<Rightarrow>
             Inl (InternalError (''could not find inherited attribute '' @ quoted (attname att)
                                 @ '' of relation '' @ quoted new_relname))
         | Some new_attno \<Rightarrow>
             (if atttypid att \<noteq> atttypid (new_attrs ! new_attno)
                 \<or> atttypmod att \<noteq> atttypmod (new_attrs ! new_attno)
              then Inl (InternalError (''attribute '' @ quoted (attname att) @ '' of relation ''
                                       @ quoted new_relname
                                       @ '' does not match parent's type''))
              else if attcollation att \<noteq> attcollation (new_attrs ! new_attno)
              then Inl (InternalError (''attribute '' @ quoted (attname att) @ '' of relation ''
                                       @ quoted new_relname
                                       @ '' does not match parent's collation''))
              else
                make_inh_translation_list_loop same new_attrs new_relname newvarno old_attrs
                  (Suc old_attno)
                  (vars @ [Some (T_Var (makeVar newvarno (int new_attno + 1) (atttypid att)
                                          (atttypmod att) (attcollation att) 0))]))))"

definition make_inh_translation_list ::
  "Relation \<Rightarrow> Relation \<Rightarrow> Index \<Rightarrow> error + Node option list"
where
  "make_inh_translation_list oldrelation newrelation newvarno =
     make_inh_translation_list_loop (rd_id oldrelation = rd_id newrelation)
       (rd_att newrelation) (rd_relname newrelation) newvarno (rd_att oldrelation) 0 []"

text \<open>
  Modelled from the spec: \<^verbatim>\<open>bms_add_member\<close> (nodes/bitmapset.c) is missing. A
  privilege bitmask or relation-id set is a finite set of non-negative integers; a
  negative member is refused with an error.
\<close>

definition bms_add_member :: "int set \<Rightarrow> int \<Rightarrow> error + int set" where
  "bms_add_member a x =
     (if x < 0 then Inl (InternalError ''negative bitmapset member not allowed'')
      else Inr (insert x a))"

text \<open>
  \<^verbatim>\<open>translate_col_privs\<close>. The first loop copies the bits of the system attributes,
  \<^verbatim>\<open>FirstLowInvalidHeapAttributeNumber + 1\<close> up to \<^verbatim>\<open>-1\<close>; the second walks the
  translation list with the parent's attribute number \<open>attno\<close>, incremented before
  the slot is looked at. The source casts every live slot to \<^verbatim>\<open>Var *\<close> and guards the
  cast by an \<^verbatim>\<open>Assert\<close> only.
\<close>

fun translate_sys_privs :: "int \<Rightarrow> int set \<Rightarrow> int list \<Rightarrow> int set \<Rightarrow> error + int set" where
  "translate_sys_privs fl parent_privs [] child_privs = Inr child_privs"
| "translate_sys_privs fl parent_privs (attno # attnos) child_privs =
     (if attno - fl \<in> parent_privs then
        (case bms_add_member child_privs (attno - fl) of
           Inl err \<Rightarrow> Inl err
         | Inr child_privs' \<Rightarrow> translate_sys_privs fl parent_privs attnos child_privs')
      else translate_sys_privs fl parent_privs attnos child_privs)"

fun translate_user_privs ::
  "int \<Rightarrow> int set \<Rightarrow> bool \<Rightarrow> Node option list \<Rightarrow> int \<Rightarrow> int set \<Rightarrow> error + int set"
where
  "translate_user_privs fl parent_privs whole_row [] attno child_privs = Inr child_privs"
| "translate_user_privs fl parent_privs whole_row (None # vars) attno child_privs =
     translate_user_privs fl parent_privs whole_row vars (attno + 1) child_privs"
| "translate_user_privs fl parent_privs whole_row (Some (T_Var var) # vars) attno child_privs =
     (if whole_row \<or> (attno + 1) - fl \<in> parent_privs then
        (case bms_add_member child_privs (varattno var - fl) of
           Inl err \<Rightarrow> Inl err
         | Inr child_privs' \<Rightarrow>
             translate_user_privs fl parent_privs whole_row vars (attno + 1) child_privs')
      else translate_user_privs fl parent_privs whole_row vars (attno + 1) child_privs)"
| "translate_user_privs fl parent_privs whole_row (Some other # vars) attno child_privs =
     Inl (Crash ''translate_col_privs: a translated expression is not a Var'')"

definition translate_col_privs ::
  "catalog \<Rightarrow> int set \<Rightarrow> Node option list \<Rightarrow> error + int set"
where
  "translate_col_privs cat parent_privs translated =
     (let fl = FirstLowInvalidHeapAttributeNumber cat
      in case translate_sys_privs fl parent_privs [fl + 1 .. - 1] {} of
           Inl err \<Rightarrow> Inl err
         | Inr child_privs \<Rightarrow>
             translate_user_privs fl parent_privs (InvalidAttrNumber - fl \<in> parent_privs)
               translated InvalidAttrNumber child_privs)"

text \<open>
  Modelled from the spec: \<^verbatim>\<open>get_plan_rowmark\<close> (optimizer/prep/preptlist.c) is
  missing. It finds the row-locking metadata the parent carries, if any: here the
  position of the first row mark of the range-table index.
\<close>

fun get_plan_rowmark :: "PlanRowMark list \<Rightarrow> Index \<Rightarrow> nat option" where
  "get_plan_rowmark [] rtindex = None"
| "get_plan_rowmark (rc # rcs) rtindex =
     (if rti rc = rtindex then Some 0 else map_option Suc (get_plan_rowmark rcs rtindex))"

text \<open>
  The two filters of the expansion loop, each a \<^verbatim>\<open>continue\<close> of the source: a child
  that is a temporary table of another session, and, under a partitioned parent, a
  relation that is not a leaf partition.
\<close>

definition child_is_skipped :: "catalog \<Rightarrow> Oid \<Rightarrow> Oid \<Rightarrow> bool" where
  "child_is_skipped cat parentOID childOID =
     ((childOID \<noteq> parentOID \<and> rd_other_temp (heap_open cat childOID))
      \<or> (rel_is_partitioned cat parentOID \<and> \<not> rel_is_leaf_partition cat childOID))"

text \<open>
  The \<^verbatim>\<open>foreach(l, inhOIDs)\<close> loop of \<^verbatim>\<open>expand_inherited_rtentry\<close>. The state is
  the planner state (its range table and row marks grow), the list \<^verbatim>\<open>appinfos\<close> and
  the set \<^verbatim>\<open>child_relids\<close>. \<open>oldrc\<close> is the position of the parent's row mark.
\<close>

fun expand_children ::
  "catalog \<Rightarrow> Index \<Rightarrow> RangeTblEntry \<Rightarrow> Oid \<Rightarrow> bool \<Rightarrow> nat option \<Rightarrow> Relation \<Rightarrow> Oid list \<Rightarrow>
   PlannerInfo \<Rightarrow> AppendRelInfo list \<Rightarrow> Index set \<Rightarrow>
   error + (PlannerInfo \<times> AppendRelInfo list \<times> Index set)"
where
  "expand_children cat rtindex rte parentOID parent_is_partitioned oldrc oldrelation []
       proot appinfos child_relids = Inr (proot, appinfos, child_relids)"
| "expand_children cat rtindex rte parentOID parent_is_partitioned oldrc oldrelation
       (childOID # inhOIDs) proot appinfos child_relids =
     (let newrelation = (if childOID \<noteq> parentOID then heap_open cat childOID
                         else oldrelation)
      in if childOID \<noteq> parentOID \<and> rd_other_temp newrelation then
           expand_children cat rtindex rte parentOID parent_is_partitioned oldrc oldrelation
             inhOIDs proot appinfos child_relids
         else if parent_is_partitioned \<and> \<not> rel_is_leaf_partition cat childOID then
           expand_children cat rtindex rte parentOID parent_is_partitioned oldrc oldrelation
             inhOIDs proot appinfos child_relids
         else
           (let childrte0 = rte\<lparr>relid := childOID, relkind := rd_rel_relkind newrelation,
                                inh := False, requiredPerms := 0\<rparr>;
                childRTindex = Suc (length (rtable proot))
            in case make_inh_translation_list oldrelation newrelation childRTindex of
                 Inl err \<Rightarrow> Inl err
               | Inr vars \<Rightarrow>
                  (let appinfo = \<lparr>parent_relid = rtindex, child_relid = childRTindex,
                                  parent_reltype = rd_rel_reltype oldrelation,
                                  child_reltype = rd_rel_reltype newrelation,
                                  translated_vars = vars, parent_reloid = parentOID\<rparr>
                   in case (if childOID \<noteq> parentOID then
                              (case translate_col_privs cat (selectedCols rte) vars of
                                 Inl err \<Rightarrow> Inl err
                               | Inr sel \<Rightarrow>
                                  (case translate_col_privs cat (insertedCols rte) vars of
                                     Inl err \<Rightarrow> Inl err
                                   | Inr ins \<Rightarrow>
                                      (case translate_col_privs cat (updatedCols rte) vars of
                                         Inl err \<Rightarrow> Inl err
                                       | Inr upd \<Rightarrow>
                                           Inr (childrte0\<lparr>selectedCols := sel,
                                                          insertedCols := ins,
                                                          updatedCols := upd\<rparr>))))
                            else Inr childrte0) of
                        Inl err \<Rightarrow> Inl err
                      | Inr childrte \<Rightarrow>
                         (let marks = (case oldrc of
                                 None \<Rightarrow> rowMarks proot
                               | Some i \<Rightarrow>
                                  (let orc = rowMarks proot ! i;
                                       mt = select_rowmark_type cat childrte (strength orc);
                                       newrc = \<lparr>rti = childRTindex, prti = rtindex,
                                                rowmarkId = rowmarkId orc, markType = mt,
                                                allMarkTypes = push_bit mt 1,
                                                strength = strength orc,
                                                waitPolicy = waitPolicy orc, isParent = False,
                                                canOptSelectLockingClause = False\<rparr>
                                   in (rowMarks proot)
                                        [i := orc\<lparr>allMarkTypes :=
                                                     allMarkTypes orc OR allMarkTypes newrc\<rparr>]
                                      @ [newrc]))
                          in expand_children cat rtindex rte parentOID parent_is_partitioned
                               oldrc oldrelation inhOIDs
                               (proot\<lparr>rtable := rtable proot @ [childrte], rowMarks := marks\<rparr>)
                               (appinfos @ [appinfo])
                               (insert childRTindex child_relids)))))"

text \<open>
  \<^verbatim>\<open>expand_inherited_rtentry\<close>. The source gets the entry both as a pointer and as
  its range-table index; \<^verbatim>\<open>expand_inherited_tables\<close> passes the \<open>rtindex\<close>-th entry of
  the range table, which is how the entry is found here. Clearing \<^verbatim>\<open>rte->inh\<close>
  updates that entry.
\<close>

definition clear_inh :: "PlannerInfo \<Rightarrow> Index \<Rightarrow> PlannerInfo" where
  "clear_inh proot rtindex =
     proot\<lparr>rtable := (rtable proot)[rtindex - 1 := (rtable proot ! (rtindex - 1))\<lparr>inh := False\<rparr>]\<rparr>"

definition inh_lockmode :: "PlannerInfo \<Rightarrow> Index \<Rightarrow> LOCKMODE" where
  "inh_lockmode proot rtindex =
     (if rtindex = resultRelation proot then RowExclusiveLock
      else case get_plan_rowmark (rowMarks proot) rtindex of
             Some i \<Rightarrow> (if canOptSelectLockingClause (rowMarks proot ! i) then RowShareLock
                         else ExclusiveLock)
           | None \<Rightarrow> AccessShareLock)"

definition expand_inherited_rtentry :: "catalog \<Rightarrow> PlannerInfo \<Rightarrow> Index \<Rightarrow> error + PlannerInfo"
where
  "expand_inherited_rtentry cat proot rtindex =
     (if rtindex = 0 \<or> length (rtable proot) < rtindex then
        Inl (Crash ''expand_inherited_rtentry: no such range-table entry'')
      else
        (let rte = rtable proot ! (rtindex - 1)
         in if \<not> inh rte then Inr proot
            else if rtekind rte \<noteq> RTE_RELATION then Inr proot
            else if \<not> has_subclass cat (relid rte) then Inr (clear_inh proot rtindex)
            else
              (let parentOID = relid rte;
                   parent_is_partitioned = rel_is_partitioned cat parentOID;
                   oldrc = get_plan_rowmark (rowMarks proot) rtindex;
                   lockmode = inh_lockmode proot rtindex;
                   inhOIDs = find_all_inheritors cat parentOID lockmode
               in if length inhOIDs < 2 then Inr (clear_inh proot rtindex)
                  else
                    (let root1 = (case oldrc of
                                    None \<Rightarrow> proot
                                  | Some i \<Rightarrow>
                                      proot\<lparr>rowMarks :=
                                             (rowMarks proot)
                                               [i := (rowMarks proot ! i)\<lparr>isParent := True\<rparr>]\<rparr>);
                         oldrelation = heap_open cat parentOID
                     in case expand_children cat rtindex rte parentOID parent_is_partitioned
                               oldrc oldrelation inhOIDs root1 [] {} of
                          Inl err \<Rightarrow> Inl err
                        | Inr (root2, appinfos, child_relids) \<Rightarrow>
                           (let root3 =
                                  (if parent_is_partitioned then
                                     root2\<lparr>dynamicScans := dynamicScans root2 @
                                              [\<lparr>dsi_parentOid = parentOID,
                                                dsi_rtindex = rtindex,
                                                dsi_hasSelector = False,
                                                dsi_children = child_relids,
                                                dsi_partKeyAttnos =
                                                  rel_partition_key_attrs cat parentOID,
                                                dsi_dynamicScanId =
                                                  Suc (length (dynamicScans root2))\<rparr>]\<rparr>
                                   else root2)
                            in if length appinfos < 1 then Inr (clear_inh root3 rtindex)
                               else Inr (root3\<lparr>append_rel_list :=
                                                 append_rel_list root3 @ appinfos\<rparr>))))))"

text \<open>
  \<^verbatim>\<open>expand_inherited_tables\<close>: the entries of the original range table, in order;
  entries that the expansion adds are not visited.
\<close>

fun expand_inherited_tables_loop ::
  "catalog \<Rightarrow> Index list \<Rightarrow> PlannerInfo \<Rightarrow> error + PlannerInfo"
where
  "expand_inherited_tables_loop cat [] proot = Inr proot"
| "expand_inherited_tables_loop cat (rtindex # rest) proot =
     (case expand_inherited_rtentry cat proot rtindex of
        Inl err \<Rightarrow> Inl err
      | Inr proot' \<Rightarrow> expand_inherited_tables_loop cat rest proot')"

definition expand_inherited_tables :: "catalog \<Rightarrow> PlannerInfo \<Rightarrow> error + PlannerInfo" where
  "expand_inherited_tables cat proot =
     expand_inherited_tables_loop cat [1 ..< Suc (length (rtable proot))] proot"

text \<open>
  What an expansion leaves behind for one parent: the number of translation records
  registered and the parent's \<^verbatim>\<open>inh\<close> flag.
\<close>

definition expansion_summary :: "error + PlannerInfo \<Rightarrow> Index \<Rightarrow> (nat \<times> bool) option" where
  "expansion_summary res rtindex =
     (case res of
        Inl err \<Rightarrow> None
      | Inr proot \<Rightarrow> Some (length (append_rel_list proot), inh (rtable proot ! (rtindex - 1))))"

subsection \<open>The schema translator\<close>

text \<open>
  The context of \<^verbatim>\<open>adjust_appendrel_attrs_mutator\<close>: the range table of
  \<^verbatim>\<open>context->root->parse\<close>, the translation record and the nesting level.
\<close>

record adjust_appendrel_attrs_context =
  ctx_rtable :: "RangeTblEntry list"
  ctx_appinfo :: AppendRelInfo
  sublevels_up :: nat

text \<open>\<^verbatim>\<open>adjust_relid_set\<close>: substitute \<open>newrelid\<close> for \<open>oldrelid\<close> in a relid set.\<close>

definition adjust_relid_set :: "Index set \<Rightarrow> Index \<Rightarrow> Index \<Rightarrow> Index set" where
  "adjust_relid_set relids oldrelid newrelid =
     (if oldrelid \<in> relids then insert newrelid (relids - {oldrelid}) else relids)"

text \<open>
  The statement \<^verbatim>\<open>((Var *) newnode)->varlevelsup += context->sublevels_up\<close>. The
  source casts without a test; on a node that is not a \<^verbatim>\<open>Var\<close> adding 0 changes
  nothing, and a non-zero addend is written into whatever field lies at that offset,
  which is reported as a crash.
\<close>

fun add_varlevelsup :: "nat \<Rightarrow> Node \<Rightarrow> error + Node" where
  "add_varlevelsup levels (T_Var v) = Inr (T_Var (v\<lparr>varlevelsup := varlevelsup v + levels\<rparr>))"
| "add_varlevelsup levels n =
     (if levels = 0 then Inr n
      else Inl (Crash ''adjust_appendrel_attrs_mutator: varlevelsup of a node that is not a Var''))"

text \<open>
  The fields of the \<^verbatim>\<open>RowExpr\<close> built for a whole-row reference: the copied
  translation list with every level raised. A NULL slot is dereferenced.
\<close>

fun rowexpr_fields :: "nat \<Rightarrow> Node option list \<Rightarrow> error + Node list" where
  "rowexpr_fields levels [] = Inr []"
| "rowexpr_fields levels (None # flds) =
     Inl (Crash ''adjust_appendrel_attrs_mutator: NULL field of a whole-row translation'')"
| "rowexpr_fields levels (Some field # flds) =
     (case add_varlevelsup levels field of
        Inl err \<Rightarrow> Inl err
      | Inr field' \<Rightarrow>
          (case rowexpr_fields levels flds of
             Inl err \<Rightarrow> Inl err
           | Inr flds' \<Rightarrow> Inr (field' # flds')))"

text \<open>
  The branch \<^verbatim>\<open>IsA(node, Var)\<close> of \<^verbatim>\<open>adjust_appendrel_attrs_mutator\<close>, on the
  content of the node. The result is built from a copy (\<^verbatim>\<open>copyObject\<close>) of the node
  or of the translated expression.
\<close>

definition adjust_appendrel_attrs_var ::
  "catalog \<Rightarrow> adjust_appendrel_attrs_context \<Rightarrow> Var \<Rightarrow> error + Node"
where
  "adjust_appendrel_attrs_var cat context var0 =
     (let appinfo = ctx_appinfo context
      in if varlevelsup var0 = sublevels_up context \<and> varno var0 = parent_relid appinfo then
           (let var = var0\<lparr>varno := child_relid appinfo, varnoold := child_relid appinfo\<rparr>
            in if varattno var > 0 then
                 (if varattno var > int (length (translated_vars appinfo)) then
                    Inl (AttributeDoesNotExist (varattno var)
                           (get_rel_name cat (parent_reloid appinfo)))
                  else
                    (case translated_vars appinfo ! nat (varattno var - 1) of
                       None \<Rightarrow>
                         Inl (AttributeDoesNotExist (varattno var)
                                (get_rel_name cat (parent_reloid appinfo)))
                     | Some newnode \<Rightarrow> add_varlevelsup (sublevels_up context) newnode))
               else if varattno var = 0 then
                 (if child_reltype appinfo \<noteq> InvalidOid then
                    (if parent_reltype appinfo \<noteq> child_reltype appinfo then
                       Inr (T_ConvertRowtypeExpr
                              (T_Var (var\<lparr>vartype := child_reltype appinfo\<rparr>))
                              (parent_reltype appinfo))
                     else Inr (T_Var var))
                  else
                    (if parent_relid appinfo = 0
                        \<or> length (ctx_rtable context) < parent_relid appinfo
                     then Inl (Crash ''rt_fetch: no such range-table entry'')
                     else
                       (case rowexpr_fields (sublevels_up context) (translated_vars appinfo) of
                          Inl err \<Rightarrow> Inl err
                        | Inr flds \<Rightarrow>
                            Inr (T_RowExpr flds (vartype var)
                                   (eref_colnames
                                      (ctx_rtable context ! (parent_relid appinfo - 1)))))))
               else Inr (T_Var var))
         else Inr (T_Var var0))"

text \<open>
  \<^verbatim>\<open>adjust_appendrel_attrs_mutator\<close> on the node kinds of \<open>Node\<close>. A sub-query
  raises the nesting level for the expressions below it; a node that has no case of
  its own goes through \<^verbatim>\<open>expression_tree_mutator\<close>, which rebuilds it from its
  mutated children. The cases for \<^verbatim>\<open>JoinExpr\<close>, \<^verbatim>\<open>RestrictInfo\<close> and
  \<^verbatim>\<open>SubPlan\<close> nodes, which \<open>Node\<close> does not have, are not part of the model.
\<close>

fun adjust_appendrel_attrs_mutator ::
  "catalog \<Rightarrow> adjust_appendrel_attrs_context \<Rightarrow> Node \<Rightarrow> error + Node"
and adjust_appendrel_attrs_mutator_list ::
  "catalog \<Rightarrow> adjust_appendrel_attrs_context \<Rightarrow> Node list \<Rightarrow> error + Node list"
where
  "adjust_appendrel_attrs_mutator cat context (T_Var var) =
     adjust_appendrel_attrs_var cat context var"
| "adjust_appendrel_attrs_mutator cat context (T_CurrentOfExpr cvarno cursor_name) =
     Inr (T_CurrentOfExpr
            (if sublevels_up context = 0 \<and> cvarno = parent_relid (ctx_appinfo context)
             then child_relid (ctx_appinfo context) else cvarno)
            cursor_name)"
| "adjust_appendrel_attrs_mutator cat context (T_RangeTblRef rtindex) =
     Inr (T_RangeTblRef
            (if sublevels_up context = 0 \<and> rtindex = parent_relid (ctx_appinfo context)
             then child_relid (ctx_appinfo context) else rtindex))"
| "adjust_appendrel_attrs_mutator cat context (T_PlaceHolderVar phexpr phrels phid phlevelsup) =
     (case adjust_appendrel_attrs_mutator cat context phexpr of
        Inl err \<Rightarrow> Inl err
      | Inr phexpr' \<Rightarrow>
          Inr (T_PlaceHolderVar phexpr'
                 (if phlevelsup = sublevels_up context
                  then adjust_relid_set phrels (parent_relid (ctx_appinfo context))
                         (child_relid (ctx_appinfo context))
                  else phrels)
                 phid phlevelsup))"
| "adjust_appendrel_attrs_mutator cat context (T_Query exprs) =
     (case adjust_appendrel_attrs_mutator_list cat
             (context\<lparr>sublevels_up := Suc (sublevels_up context)\<rparr>) exprs of
        Inl err \<Rightarrow> Inl err
      | Inr exprs' \<Rightarrow> Inr (T_Query exprs'))"
| "adjust_appendrel_attrs_mutator cat context (T_Const c) = Inr (T_Const c)"
| "adjust_appendrel_attrs_mutator cat context (T_RelabelType arg rtype rtypmod rcollid) =
     (case adjust_appendrel_attrs_mutator cat context arg of
        Inl err \<Rightarrow> Inl err
      | Inr arg' \<Rightarrow> Inr (T_RelabelType arg' rtype rtypmod rcollid))"
| "adjust_appendrel_attrs_mutator cat context (T_OpExpr opno rtype args) =
     (case adjust_appendrel_attrs_mutator_list cat context args of
        Inl err \<Rightarrow> Inl err
      | Inr args' \<Rightarrow> Inr (T_OpExpr opno rtype args'))"
| "adjust_appendrel_attrs_mutator cat context (T_ConvertRowtypeExpr arg rtype) =
     (case adjust_appendrel_attrs_mutator cat context arg of
        Inl err \<Rightarrow> Inl err
      | Inr arg' \<Rightarrow> Inr (T_ConvertRowtypeExpr arg' rtype))"
| "adjust_appendrel_attrs_mutator cat context (T_RowExpr args rtype colnames) =
     (case adjust_appendrel_attrs_mutator_list cat context args of
        Inl err \<Rightarrow> Inl err
      | Inr args' \<Rightarrow> Inr (T_RowExpr args' rtype colnames))"
| "adjust_appendrel_attrs_mutator_list cat context [] = Inr []"
| "adjust_appendrel_attrs_mutator_list cat context (n # ns) =
     (case adjust_appendrel_attrs_mutator cat context n of
        Inl err \<Rightarrow> Inl err
      | Inr n' \<Rightarrow>
          (case adjust_appendrel_attrs_mutator_list cat context ns of
             Inl err \<Rightarrow> Inl err
           | Inr ns' \<Rightarrow> Inr (n' # ns')))"

text \<open>
  \<^verbatim>\<open>adjust_appendrel_attrs\<close> on a bare expression: the mutator at nesting level 0.
\<close>

definition adjust_appendrel_attrs ::
  "catalog \<Rightarrow> RangeTblEntry list \<Rightarrow> Node \<Rightarrow> AppendRelInfo \<Rightarrow> error + Node"
where
  "adjust_appendrel_attrs cat root_rtable node appinfo =
     adjust_appendrel_attrs_mutator cat
       \<lparr>ctx_rtable = root_rtable, ctx_appinfo = appinfo, sublevels_up = 0\<rparr> node"

subsection \<open>The Var branch on a store\<close>

text \<open>
  The same branch with the nodes in memory, to follow which objects it writes. The
  store holds \<^verbatim>\<open>Var\<close> objects by address; addresses from \<open>brk\<close> on are free, and
  \<^verbatim>\<open>copyObject\<close> allocates there. The translation list is a list of pointers, \<open>None\<close>
  for NULL. A branch returns the store together with an error or the result: a pointer
  to a \<^verbatim>\<open>Var\<close>, a \<^verbatim>\<open>ConvertRowtypeExpr\<close> over one, or a \<^verbatim>\<open>RowExpr\<close> over a list
  of them.
\<close>

record var_store =
  cells :: "nat \<Rightarrow> Var option"
  brk :: nat

datatype store_result =
    R_Var nat
  | R_ConvertRowtypeExpr nat Oid
  | R_RowExpr "nat list" Oid "string list"

definition copyObject_Var :: "var_store \<Rightarrow> Var \<Rightarrow> var_store \<times> nat" where
  "copyObject_Var s v = (s\<lparr>cells := (cells s)(brk s \<mapsto> v), brk := Suc (brk s)\<rparr>, brk s)"

definition write_Var :: "var_store \<Rightarrow> nat \<Rightarrow> (Var \<Rightarrow> Var) \<Rightarrow> var_store" where
  "write_Var s p f = s\<lparr>cells := (cells s)(p := map_option f (cells s p))\<rparr>"

fun rowexpr_fields_store ::
  "nat \<Rightarrow> var_store \<Rightarrow> nat option list \<Rightarrow> var_store \<times> (error + nat list)"
where
  "rowexpr_fields_store levels s [] = (s, Inr [])"
| "rowexpr_fields_store levels s (None # ptrs) =
     (s, Inl (Crash ''adjust_appendrel_attrs_mutator: NULL field of a whole-row translation''))"
| "rowexpr_fields_store levels s (Some p # ptrs) =
     (case cells s p of
        None \<Rightarrow> (s, Inl (Crash ''dangling pointer''))
      | Some v \<Rightarrow>
          (case copyObject_Var s v of
             (s1, field) \<Rightarrow>
               (case rowexpr_fields_store levels
                       (write_Var s1 field (\<lambda>w. w\<lparr>varlevelsup := varlevelsup w + levels\<rparr>))
                       ptrs of
                  (s2, Inl err) \<Rightarrow> (s2, Inl err)
                | (s2, Inr flds) \<Rightarrow> (s2, Inr (field # flds)))))"

definition adjust_appendrel_attrs_var_store ::
  "catalog \<Rightarrow> adjust_appendrel_attrs_context \<Rightarrow> nat option list \<Rightarrow> var_store \<Rightarrow> nat \<Rightarrow>
   var_store \<times> (error + store_result)"
where
  "adjust_appendrel_attrs_var_store cat context translated_ptrs s node =
     (case cells s node of
        None \<Rightarrow> (s, Inl (Crash ''dangling pointer''))
      | Some var0 \<Rightarrow>
          (case copyObject_Var s var0 of
             (s1, var) \<Rightarrow>
               (let appinfo = ctx_appinfo context
                in if varlevelsup var0 = sublevels_up context
                      \<and> varno var0 = parent_relid appinfo then
                     (let s2 = write_Var s1 var
                                 (\<lambda>w. w\<lparr>varno := child_relid appinfo,
                                         varnoold := child_relid appinfo\<rparr>)
                      in if varattno var0 > 0 then
                           (if varattno var0 > int (length translated_ptrs) then
                              (s2, Inl (AttributeDoesNotExist (varattno var0)
                                          (get_rel_name cat (parent_reloid appinfo))))
                            else
                              (case translated_ptrs ! nat (varattno var0 - 1) of
                                 None \<Rightarrow>
                                   (s2, Inl (AttributeDoesNotExist (varattno var0)
                                               (get_rel_name cat (parent_reloid appinfo))))
                               | Some p \<Rightarrow>
                                  (case cells s2 p of
                                     None \<Rightarrow> (s2, Inl (Crash ''dangling pointer''))
                                   | Some tv \<Rightarrow>
                                      (case copyObject_Var s2 tv of
                                         (s3, newnode) \<Rightarrow>
                                           (write_Var s3 newnode
                                              (\<lambda>w. w\<lparr>varlevelsup :=
                                                       varlevelsup w + sublevels_up context\<rparr>),
                                            Inr (R_Var newnode))))))
                         else if varattno var0 = 0 then
                           (if child_reltype appinfo \<noteq> InvalidOid then
                              (if parent_reltype appinfo \<noteq> child_reltype appinfo then
                                 (write_Var s2 var (\<lambda>w. w\<lparr>vartype := child_reltype appinfo\<rparr>),
                                  Inr (R_ConvertRowtypeExpr var (parent_reltype appinfo)))
                               else (s2, Inr (R_Var var)))
                            else
                              (if parent_relid appinfo = 0
                                  \<or> length (ctx_rtable context) < parent_relid appinfo
                               then (s2, Inl (Crash ''rt_fetch: no such range-table entry''))
                               else
                                 (case rowexpr_fields_store (sublevels_up context) s2
                                         translated_ptrs of
                                    (s3, Inl err) \<Rightarrow> (s3, Inl err)
                                  | (s3, Inr flds) \<Rightarrow>
                                      (s3, Inr (R_RowExpr flds (vartype var0)
                                                  (eref_colnames
                                                     (ctx_rtable context
                                                        ! (parent_relid appinfo - 1))))))))
                         else (s2, Inr (R_Var var)))
                   else (s1, Inr (R_Var var)))))"

text \<open>Reading a result of the store as a node.\<close>

fun read_result :: "var_store \<Rightarrow> store_result \<Rightarrow> Node option" where
  "read_result s (R_Var p) = map_option T_Var (cells s p)"
| "read_result s (R_ConvertRowtypeExpr p rtype) =
     map_option (\<lambda>v. T_ConvertRowtypeExpr (T_Var v) rtype) (cells s p)"
| "read_result s (R_RowExpr ps rtype colnames) =
     (if list_all (\<lambda>p. cells s p \<noteq> None) ps
      then Some (T_RowExpr (map (\<lambda>p. T_Var (the (cells s p))) ps) rtype colnames)
      else None)"

section \<open>Sample inputs\<close>

text \<open>
  A concrete environment and concrete inputs, on which the functions above are
  evaluated below. The sample type functions read the type, size modifier and
  collation fields of the node; the sample cost functions are simple arithmetic.
\<close>

fun sample_exprType :: "Node \<Rightarrow> Oid" where
  "sample_exprType (T_Var v) = vartype v"
| "sample_exprType (T_Const c) = consttype c"
| "sample_exprType (T_RelabelType a t tm c) = t"
| "sample_exprType (T_OpExpr opno t args) = t"
| "sample_exprType (T_ConvertRowtypeExpr a t) = t"
| "sample_exprType (T_RowExpr args t names) = t"
| "sample_exprType n = InvalidOid"

fun sample_exprTypmod :: "Node \<Rightarrow> int" where
  "sample_exprTypmod (T_Var v) = vartypmod v"
| "sample_exprTypmod (T_Const c) = consttypmod c"
| "sample_exprTypmod (T_RelabelType a t tm c) = tm"
| "sample_exprTypmod n = - 1"

fun sample_exprCollation :: "Node \<Rightarrow> Oid" where
  "sample_exprCollation (T_Var v) = varcollid v"
| "sample_exprCollation (T_Const c) = constcollid c"
| "sample_exprCollation (T_RelabelType a t tm c) = c"
| "sample_exprCollation n = InvalidOid"

definition sample_compare_costs :: "cost_fields \<Rightarrow> cost_fields \<Rightarrow> real \<Rightarrow> int" where
  "sample_compare_costs p1 p2 fraction =
     (let c1 = startup_cost p1 + fraction * (total_cost p1 - startup_cost p1);
          c2 = startup_cost p2 + fraction * (total_cost p2 - startup_cost p2)
      in if c1 < c2 then - 1 else if c1 > c2 then 1 else 0)"

definition sample_tlist :: "TargetEntry list" where
  "sample_tlist =
     [\<lparr>expr = T_Var (makeVar 1 1 INT4OID (- 1) InvalidOid 0), resno = 1, resname = ''a'',
       ressortgroupref = 0, resjunk = False\<rparr>,
      \<lparr>expr = T_Const (makeConst 705 (- 1) InvalidOid (- 2) 7 False False), resno = 2,
       resname = ''b'', ressortgroupref = 0, resjunk = False\<rparr>]"

definition sample_env :: externals where
  "sample_env =
     \<lparr>exprType = sample_exprType,
      exprTypmod = sample_exprTypmod,
      exprCollation = sample_exprCollation,
      coerce_to_common_type = (\<lambda>e t ctx. Inr (T_OpExpr 0 t [e])),
      uninit_int32 = (\<lambda>i. 0),
      grouping_is_sortable = (\<lambda>cl. \<forall>c \<in> set cl. sortop c \<noteq> InvalidOid),
      grouping_is_hashable = (\<lambda>cl. \<forall>c \<in> set cl. hashable c),
      MAXALIGN = (\<lambda>x. (x + 7) AND NOT 7),
      SizeofMinimalTupleHeader = 16,
      planner_segment_count = 3,
      cost_agg = (\<lambda>n groups st tot rws. \<lparr>startup_cost = tot + rws, total_cost = tot + rws + groups\<rparr>),
      cost_sort = (\<lambda>inp tuples w wm. \<lparr>startup_cost = inp + 2 * tuples, total_cost = inp + 3 * tuples\<rparr>),
      cost_group = (\<lambda>n groups st tot rws. \<lparr>startup_cost = st, total_cost = tot + rws\<rparr>),
      compare_fractional_path_costs = sample_compare_costs,
      path_rows = (\<lambda>p. 1000),
      pathtarget_width = (\<lambda>p. 100),
      path_startup_cost = (\<lambda>p. 0),
      path_total_cost = (\<lambda>p. 50),
      stack_is_too_deep = (\<lambda>d. d > 100),
      subquery_planner = (\<lambda>rti tf. Inr \<lparr>processed_tlist = sample_tlist, plan_params_set = False,
                                         grouped_or_aggregated = False, subpath_rows = 100\<rparr>),
      estimate_num_groups = (\<lambda>rti tl rws. real rti * 10),
      tlist_same_datatypes = (\<lambda>tl tys junkOK. True),
      tlist_same_collations = (\<lambda>tl colls junkOK. True),
      choose_setop_type = (\<lambda>ps. PSETOP_PARALLEL_PARTITIONED),
      adjust_setop_argument = (\<lambda>ot p tl. p)\<rparr>"


definition roomy_config :: planner_config where
  "roomy_config = \<lparr>enable_hashagg = True, work_mem = 4096, Gp_role = GP_ROLE_UTILITY\<rparr>"

definition sample_clause :: SortGroupClause where
  "sample_clause = \<lparr>tleSortGroupRef = 0, eqop = 96, sortop = 97, nulls_first = False,
                     hashable = True\<rparr>"

definition sample_leaf_types :: "Oid list" where
  "sample_leaf_types = [23, 705]"

text \<open>
  Three trees over the same declared column types: \<open>union_all_tree\<close> is
  \<^verbatim>\<open>(1 UNION ALL 2) UNION ALL 3\<close>, \<open>union_mixed_tree\<close> is
  \<^verbatim>\<open>(1 UNION 2) UNION ALL 3\<close>, and \<open>intersect_tree\<close> is \<^verbatim>\<open>1 INTERSECT 2\<close>.
\<close>

definition union_all_tree :: SetOpNode where
  "union_all_tree =
     SetOperationStmt SETOP_UNION True
       (SetOperationStmt SETOP_UNION True (RangeTblRef 1) (RangeTblRef 2)
          sample_leaf_types [0, 0] [])
       (RangeTblRef 3) sample_leaf_types [0, 0] []"

definition union_mixed_tree :: SetOpNode where
  "union_mixed_tree =
     SetOperationStmt SETOP_UNION True
       (SetOperationStmt SETOP_UNION False (RangeTblRef 1) (RangeTblRef 2)
          sample_leaf_types [0, 0] [sample_clause, sample_clause])
       (RangeTblRef 3) sample_leaf_types [0, 0] []"

definition intersect_tree :: SetOpNode where
  "intersect_tree =
     SetOperationStmt SETOP_INTERSECT False (RangeTblRef 2) (RangeTblRef 1)
       sample_leaf_types [0, 0] [sample_clause, sample_clause]"

text \<open>
  A sample catalog. Table 100 has the columns \<open>a\<close>, a dropped column and \<open>c\<close>, and
  the children 101 (columns \<open>a\<close>, \<open>c\<close>, \<open>d\<close>) and 102, a temporary table of another
  session. Table 200 is partitioned, with the single leaf partition 201.
\<close>

definition sample_parent_attrs :: "FormData_pg_attribute list" where
  "sample_parent_attrs =
     [\<lparr>attname = ''a'', atttypid = 23, atttypmod = - 1, attcollation = 0, attisdropped = False\<rparr>,
      \<lparr>attname = ''gone'', atttypid = 0, atttypmod = - 1, attcollation = 0, attisdropped = True\<rparr>,
      \<lparr>attname = ''c'', atttypid = 25, atttypmod = - 1, attcollation = 100,
        attisdropped = False\<rparr>]"

definition sample_child_attrs :: "FormData_pg_attribute list" where
  "sample_child_attrs =
     [\<lparr>attname = ''a'', atttypid = 23, atttypmod = - 1, attcollation = 0, attisdropped = False\<rparr>,
      \<lparr>attname = ''c'', atttypid = 25, atttypmod = - 1, attcollation = 100,
        attisdropped = False\<rparr>,
      \<lparr>attname = ''d'', atttypid = 23, atttypmod = - 1, attcollation = 0, attisdropped = False\<rparr>]"

definition sample_relation :: "Oid \<Rightarrow> Relation" where
  "sample_relation oid =
     \<lparr>rd_id = oid, rd_relname = (if oid = 100 \<or> oid = 200 then ''parent'' else ''child''),
      rd_rel_relkind = 114, rd_rel_reltype = oid + 1000,
      rd_att = (if oid = 100 \<or> oid = 200 then sample_parent_attrs else sample_child_attrs),
      rd_other_temp = (oid = 102)\<rparr>"

definition sample_catalog :: catalog where
  "sample_catalog =
     \<lparr>has_subclass = (\<lambda>oid. oid = 100 \<or> oid = 200),
      rel_is_partitioned = (\<lambda>oid. oid = 200),
      find_all_inheritors = (\<lambda>oid lockmode. if oid = 100 then [100, 101, 102]
                                              else if oid = 200 then [200, 201] else [oid]),
      rel_is_leaf_partition = (\<lambda>oid. oid = 201),
      heap_open = sample_relation,
      rel_partition_key_attrs = (\<lambda>oid. [1]),
      select_rowmark_type = (\<lambda>rte str. 0),
      get_rel_name = (\<lambda>oid. rd_relname (sample_relation oid)),
      FirstLowInvalidHeapAttributeNumber = - 8\<rparr>"

definition sample_rte :: "Oid \<Rightarrow> RangeTblEntry" where
  "sample_rte oid =
     \<lparr>rtekind = RTE_RELATION, relid = oid, relkind = 114, inh = True, requiredPerms = 2,
      selectedCols = {8}, insertedCols = {}, updatedCols = {9, 11},
      eref_colnames = [''a'', ''gone'', ''c'']\<rparr>"

definition sample_root :: PlannerInfo where
  "sample_root =
     \<lparr>rtable = [sample_rte 100, sample_rte 200], resultRelation = 0, rowMarks = [],
      append_rel_list = [], dynamicScans = []\<rparr>"

text \<open>
  The translation record of the child 101 of table 100, at range-table index 3, and
  a store that holds a reference to the parent's third column (address 0) and the two
  translated column references (addresses 1 and 2).
\<close>

definition sample_appinfo :: AppendRelInfo where
  "sample_appinfo =
     \<lparr>parent_relid = 1, child_relid = 3, parent_reltype = 1100, child_reltype = 1101,
      translated_vars = [Some (T_Var (makeVar 3 1 23 (- 1) 0 0)), None,
                         Some (T_Var (makeVar 3 2 25 (- 1) 100 0))],
      parent_reloid = 100\<rparr>"

definition sample_context :: adjust_appendrel_attrs_context where
  "sample_context =
     \<lparr>ctx_rtable = [sample_rte 100, sample_rte 200], ctx_appinfo = sample_appinfo,
      sublevels_up = 0\<rparr>"

definition parent_column :: "AttrNumber \<Rightarrow> nat \<Rightarrow> Var" where
  "parent_column attno levelsup = makeVar 1 attno 25 (- 1) 100 levelsup"

definition sample_store :: var_store where
  "sample_store =
     \<lparr>cells = [0 \<mapsto> parent_column 3 0, 1 \<mapsto> makeVar 3 1 23 (- 1) 0 0,
               2 \<mapsto> makeVar 3 2 25 (- 1) 100 0],
      brk = 3\<rparr>"

section \<open>Properties\<close>

subsection \<open>The hash-versus-sort chooser\<close>


lemma sample_clause_hashable: "grouping_is_hashable sample_env [sample_clause]"
  by (simp add: sample_env_def sample_clause_def)

lemma sample_clause_sortable: "grouping_is_sortable sample_env [sample_clause]"
  by (simp add: sample_env_def sample_clause_def InvalidOid_def)






text \<open>
  C10. When the grouping operators support both hashing and sorting and
  \<^verbatim>\<open>enable_hashagg\<close> is off, the chooser returns the sorting strategy; the result does
  not depend on the footprint, the memory ceiling or any cost.
\<close>

theorem choose_hashed_setop_enable_hashagg_off:
  assumes "grouping_is_hashable env groupClauses"
    and "grouping_is_sortable env groupClauses"
    and "\<not> enable_hashagg cfg"
  shows "choose_hashed_setop env cfg root_tuple_fraction groupClauses input_path dNumGroups
           dNumOutputRows construct_name = Inr False"
  using assms by (simp add: choose_hashed_setop_def Let_def)

theorem choose_hashed_setop_enable_hashagg_off_witness:
  "grouping_is_hashable sample_env [sample_clause]
   \<and> grouping_is_sortable sample_env [sample_clause]
   \<and> \<not> enable_hashagg (roomy_config\<lparr>enable_hashagg := False\<rparr>)
   \<and> choose_hashed_setop sample_env (roomy_config\<lparr>enable_hashagg := False\<rparr>) 0
        [sample_clause] (SubqueryScanPath 1) 10 10 ''UNION'' = Inr False"
proof -
  have e: "\<not> enable_hashagg (roomy_config\<lparr>enable_hashagg := False\<rparr>)"
    by simp
  from choose_hashed_setop_enable_hashagg_off
         [OF sample_clause_hashable sample_clause_sortable e]
       sample_clause_hashable sample_clause_sortable e
  show ?thesis by blast
qed

subsection \<open>The output column builders\<close>

lemma setop_tlist_refs_ok_append:
  "setop_tlist_refs_ok n (xs @ ys) =
     (setop_tlist_refs_ok n xs \<and> setop_tlist_refs_ok (n + int (length xs)) ys)"
  by (induction xs arbitrary: n) (auto simp: algebra_simps)

lemma setop_tlist_refs_ok_nth:
  "setop_tlist_refs_ok n tlist \<Longrightarrow> i < length tlist \<Longrightarrow>
     resno (tlist ! i) = n + int i
     \<and> (\<not> resjunk (tlist ! i) \<longrightarrow> int (ressortgroupref (tlist ! i)) = n + int i)
     \<and> (resjunk (tlist ! i) \<longrightarrow> ressortgroupref (tlist ! i) = 0)"
proof (induction tlist arbitrary: n i)
  case Nil
  then show ?case by simp
next
  case (Cons tle tlist)
  show ?case
  proof (cases i)
    case 0
    with Cons.prems show ?thesis by (simp split: if_splits)
  next
    case (Suc j)
    with Cons.prems have "setop_tlist_refs_ok (n + 1) tlist" and "j < length tlist"
      by simp_all
    from Cons.IH [OF this] Suc show ?thesis by simp
  qed
qed

lemma generate_setop_tlist_loop_refs:
  "generate_setop_tlist_loop env vno hc cts ccs its rtl tlist rno = Inr (tlist', rno')
   \<Longrightarrow> setop_tlist_refs_ok 1 tlist \<Longrightarrow> rno = 1 + int (length tlist)
   \<Longrightarrow> setop_tlist_refs_ok 1 tlist' \<and> rno' = 1 + int (length tlist')"
proof (induction env vno hc cts ccs its rtl tlist rno rule: generate_setop_tlist_loop.induct)
  case (1 env vno hc colType ctlc colColl cclc inputtle itlc rtlc tlist rno)
  then show ?case
    by (auto simp: Let_def makeTargetEntry_def setop_tlist_refs_ok_append
        split: list.splits sum.splits if_splits)
qed simp_all

lemma generate_append_tlist_loop_refs:
  "generate_append_tlist_loop cts ccs rtl tms ci tlist rno = (tlist', rno')
   \<Longrightarrow> setop_tlist_refs_ok 1 tlist \<Longrightarrow> rno = 1 + int (length tlist)
   \<Longrightarrow> setop_tlist_refs_ok 1 tlist' \<and> rno' = 1 + int (length tlist')"
proof (induction cts ccs rtl tms ci tlist rno rule: generate_append_tlist_loop.induct)
  case (1 colType ctlc colColl cclc reftle rtlc colTypmods colindex tlist rno)
  then show ?case
    by (auto simp: Let_def makeTargetEntry_def setop_tlist_refs_ok_append)
qed simp_all

lemma generate_setop_tlist_refs:
  assumes "generate_setop_tlist env colTypes colCollations flag vno hack_constants
             input_tlist refnames_tlist = Inr tlist"
  shows "setop_tlist_refs_ok 1 tlist"
proof -
  from assms obtain tl rno where l: "generate_setop_tlist_loop env vno hack_constants
        colTypes colCollations input_tlist refnames_tlist [] 1 = Inr (tl, rno)"
    by (auto simp: generate_setop_tlist_def split: sum.splits)
  from generate_setop_tlist_loop_refs [OF l] have ok: "setop_tlist_refs_ok 1 tl"
    and rno: "rno = 1 + int (length tl)" by simp_all
  from assms l ok rno show ?thesis
    by (auto simp: generate_setop_tlist_def makeTargetEntry_def setop_tlist_refs_ok_append
        split: if_splits)
qed

lemma generate_append_tlist_refs:
  assumes "generate_append_tlist env colTypes colCollations flag input_tlists
             refnames_tlist = Inr tlist"
  shows "setop_tlist_refs_ok 1 tlist"
proof -
  from assms obtain tms where t: "append_typmods env True colTypes input_tlists
        (map (uninit_int32 env) [0 ..< length colTypes]) = Inr tms"
    by (auto simp: generate_append_tlist_def split: sum.splits)
  obtain tl rno where l: "generate_append_tlist_loop colTypes colCollations refnames_tlist
        tms 0 [] 1 = (tl, rno)"
    by (cases "generate_append_tlist_loop colTypes colCollations refnames_tlist tms 0 [] 1")
  from generate_append_tlist_loop_refs [OF l] have ok: "setop_tlist_refs_ok 1 tl"
    and rno: "rno = 1 + int (length tl)" by simp_all
  from assms t l ok rno show ?thesis
    by (auto simp: generate_append_tlist_def makeTargetEntry_def setop_tlist_refs_ok_append
        split: if_splits)
qed

text \<open>
  C8. Every target list that \<^verbatim>\<open>generate_setop_tlist\<close> or \<^verbatim>\<open>generate_append_tlist\<close>
  returns is numbered 1, 2, ... by \<^verbatim>\<open>resno\<close>; each of its non-junk entries has
  \<^verbatim>\<open>ressortgroupref\<close> equal to that position, and each junk entry (the flag column)
  has \<^verbatim>\<open>ressortgroupref = 0\<close>. The statement is given entry by entry.
\<close>

theorem tlist_builders_stamp_refs:
  "(generate_setop_tlist env colTypes colCollations flag vno hack_constants input_tlist
      refnames_tlist = Inr tlist \<and> i < length tlist
    \<longrightarrow> resno (tlist ! i) = 1 + int i
        \<and> (\<not> resjunk (tlist ! i) \<longrightarrow> int (ressortgroupref (tlist ! i)) = 1 + int i)
        \<and> (resjunk (tlist ! i) \<longrightarrow> ressortgroupref (tlist ! i) = 0))
   \<and> (generate_append_tlist env colTypes colCollations aflag input_tlists refnames_tlist
      = Inr tlist' \<and> j < length tlist'
    \<longrightarrow> resno (tlist' ! j) = 1 + int j
        \<and> (\<not> resjunk (tlist' ! j) \<longrightarrow> int (ressortgroupref (tlist' ! j)) = 1 + int j)
        \<and> (resjunk (tlist' ! j) \<longrightarrow> ressortgroupref (tlist' ! j) = 0))"
  using setop_tlist_refs_ok_nth [OF generate_setop_tlist_refs, of env colTypes
          colCollations flag vno hack_constants input_tlist refnames_tlist tlist i]
        setop_tlist_refs_ok_nth [OF generate_append_tlist_refs, of env colTypes
          colCollations aflag input_tlists refnames_tlist tlist' j]
  by blast

lemma sample_setop_tlist:
  "generate_setop_tlist sample_env [23, 25] [0, 100] 1 1 True sample_tlist sample_tlist =
     Inr [\<lparr>expr = T_Var \<lparr>varno = 1, varattno = 1, vartype = 23, vartypmod = - 1,
                          varcollid = 0, varlevelsup = 0, varnoold = 1, varoattno = 1\<rparr>,
           resno = 1, resname = ''a'', ressortgroupref = 1, resjunk = False\<rparr>,
          \<lparr>expr = T_RelabelType
                    (T_OpExpr 0 25
                       [T_Const \<lparr>consttype = 705, consttypmod = - 1, constcollid = 0,
                                 constlen = - 2, constvalue = 7, constisnull = False,
                                 constbyval = False\<rparr>])
                    25 (- 1) 100,
           resno = 2, resname = ''b'', ressortgroupref = 2, resjunk = False\<rparr>,
          \<lparr>expr = T_Const \<lparr>consttype = 23, consttypmod = - 1, constcollid = 0, constlen = 4,
                            constvalue = 1, constisnull = False, constbyval = True\<rparr>,
           resno = 3, resname = ''flag'', ressortgroupref = 0, resjunk = True\<rparr>]"
  by code_simp

lemma sample_append_tlist:
  "generate_append_tlist sample_env [23, 25] [0, 100] True [sample_tlist, sample_tlist]
     sample_tlist =
     Inr [\<lparr>expr = T_Var \<lparr>varno = OUTER_VAR, varattno = 1, vartype = 23, vartypmod = - 1,
                          varcollid = 0, varlevelsup = 0, varnoold = OUTER_VAR,
                          varoattno = 1\<rparr>,
           resno = 1, resname = ''a'', ressortgroupref = 1, resjunk = False\<rparr>,
          \<lparr>expr = T_Var \<lparr>varno = OUTER_VAR, varattno = 2, vartype = 25, vartypmod = - 1,
                          varcollid = 100, varlevelsup = 0, varnoold = OUTER_VAR,
                          varoattno = 2\<rparr>,
           resno = 2, resname = ''b'', ressortgroupref = 2, resjunk = False\<rparr>,
          \<lparr>expr = T_Var \<lparr>varno = OUTER_VAR, varattno = 3, vartype = 23, vartypmod = - 1,
                          varcollid = 0, varlevelsup = 0, varnoold = OUTER_VAR,
                          varoattno = 3\<rparr>,
           resno = 3, resname = ''flag'', ressortgroupref = 0, resjunk = True\<rparr>]"
  by code_simp

theorem tlist_builders_stamp_refs_witness:
  "\<exists>tlist tlist'.
     generate_setop_tlist sample_env [23, 25] [0, 100] 1 1 True sample_tlist sample_tlist
       = Inr tlist
     \<and> generate_append_tlist sample_env [23, 25] [0, 100] True [sample_tlist, sample_tlist]
         sample_tlist = Inr tlist'
     \<and> length tlist = 3 \<and> length tlist' = 3
     \<and> \<not> resjunk (tlist ! 1) \<and> ressortgroupref (tlist ! 1) = 2
     \<and> resjunk (tlist ! 2) \<and> ressortgroupref (tlist ! 2) = 0
     \<and> \<not> resjunk (tlist' ! 1) \<and> ressortgroupref (tlist' ! 1) = 2
     \<and> resjunk (tlist' ! 2) \<and> ressortgroupref (tlist' ! 2) = 0"
proof -
  obtain tlist where
    a: "generate_setop_tlist sample_env [23, 25] [0, 100] 1 1 True sample_tlist sample_tlist
          = Inr tlist"
    and la: "length tlist = 3" and ja: "\<not> resjunk (tlist ! 1)" "resjunk (tlist ! 2)"
    using sample_setop_tlist by simp
  obtain tlist' where
    b: "generate_append_tlist sample_env [23, 25] [0, 100] True [sample_tlist, sample_tlist]
          sample_tlist = Inr tlist'"
    and lb: "length tlist' = 3" and jb: "\<not> resjunk (tlist' ! 1)" "resjunk (tlist' ! 2)"
    using sample_append_tlist by simp
  from tlist_builders_stamp_refs [of sample_env "[23, 25]" "[0, 100]" 1 1 True sample_tlist
         sample_tlist tlist 1 True "[sample_tlist, sample_tlist]" tlist' 1] a b la lb ja jb
  have r1: "ressortgroupref (tlist ! 1) = 2" "ressortgroupref (tlist' ! 1) = 2"
    by simp_all
  from tlist_builders_stamp_refs [of sample_env "[23, 25]" "[0, 100]" 1 1 True sample_tlist
         sample_tlist tlist 2 True "[sample_tlist, sample_tlist]" tlist' 2] a b la lb ja jb
  have r2: "ressortgroupref (tlist ! 2) = 0" "ressortgroupref (tlist' ! 2) = 0"
    by simp_all
  from a b la lb ja jb r1 r2 show ?thesis by blast
qed

subsection \<open>The set-operation planner\<close>

lemma length_adjust_setop_arguments:
  "length (adjust_setop_arguments env pathlist tlist_list optype) = length pathlist"
  by (induction env pathlist tlist_list optype rule: adjust_setop_arguments.induct) simp_all

lemma length_cdb_decide_approach:
  "length (snd (cdb_decide_approach env cfg pathlist tlist_list)) = length pathlist"
  by (simp add: cdb_decide_approach_def Let_def length_adjust_setop_arguments)

lemma cdb_decide_approach_not_dispatch:
  "Gp_role cfg \<noteq> GP_ROLE_DISPATCH \<Longrightarrow>
     snd (cdb_decide_approach env cfg pathlist tlist_list) = pathlist
     \<and> fst (cdb_decide_approach env cfg pathlist tlist_list) \<noteq> PSETOP_PARALLEL_PARTITIONED"
  by (simp add: cdb_decide_approach_def)

lemma make_union_unique_shape:
  assumes "make_union_unique env cfg tf gcl path tlist = Inr path'"
  shows "append_inputs path' = append_inputs path \<and> dedup_steps path' = Suc (dedup_steps path)"
proof -
  from assms obtain groupList where
    g: "generate_setop_grouplist gcl tlist = Inr groupList" and ne: "groupList \<noteq> []"
    by (auto simp: make_union_unique_def split: sum.splits if_splits)
  from assms g ne obtain use_hash where
    c: "choose_hashed_setop env cfg tf groupList path (path_rows env path) (path_rows env path)
          ''UNION'' = Inr use_hash"
    by (auto simp: make_union_unique_def Let_def split: sum.splits)
  from assms g ne c show ?thesis
    by (cases use_hash) (auto simp: make_union_unique_def Let_def)
qed

lemma generate_union_path_append_shape:
  assumes "generate_union_path_append env cfg cur al ctys ccolls gcl pathlist0 tlist_list
             refnames want = Inr (path, tlist, ngroups)"
  shows "append_inputs path = snd (cdb_decide_approach env cfg pathlist0 tlist_list)
       \<and> dedup_steps path = (if al then 0 else 1)"
proof -
  obtain optype pathlist where
    d: "cdb_decide_approach env cfg pathlist0 tlist_list = (optype, pathlist)"
    by (cases "cdb_decide_approach env cfg pathlist0 tlist_list")
  from assms d obtain tl where
    t: "generate_append_tlist env ctys ccolls False tlist_list refnames = Inr tl"
    by (auto simp: generate_union_path_append_def split: sum.splits)
  show ?thesis
  proof (cases al)
    case True
    with assms d t show ?thesis
      by (auto simp: generate_union_path_append_def Let_def)
  next
    case False
    with assms d t have
      u: "make_union_unique env cfg cur gcl
            (if optype = PSETOP_PARALLEL_PARTITIONED
             then MotionHashPath (AppendPath pathlist tl None) tl
             else AppendPath pathlist tl None) tl = Inr path"
      by (auto simp: generate_union_path_append_def Let_def split: sum.splits)
    from make_union_unique_shape [OF u] d False show ?thesis
      by (simp split: if_splits)
  qed
qed

lemma recurse_set_operations_leaf_path:
  assumes "recurse_set_operations env cfg depth tf (RangeTblRef rtindex) ctys ccolls junkOK
             flag refnames want = Inr (path, tlist, ngroups)"
  shows "scanned_rel path = Some rtindex"
  using assms by (auto simp: recurse_set_operations.simps split: if_splits sum.splits)

lemma recurse_union_children_flatten:
  "recurse_union_children env cfg depth tf setOp top_union refnames = Inr (pathlist, tlists)
   \<Longrightarrow> same_union top_union setOp
   \<Longrightarrow> map scanned_rel pathlist = map Some (setop_leaves setOp)
       \<and> length tlists = length (setop_leaves setOp)"
proof (induction setOp arbitrary: depth pathlist tlists)
  case (RangeTblRef rtindex)
  from RangeTblRef.prems(1) obtain path tl ng where
    r: "recurse_set_operations env cfg (Suc depth) tf (RangeTblRef rtindex)
          (top_colTypes top_union) (top_colCollations top_union) False (- 1) refnames False
        = Inr (path, tl, ng)"
    and p: "pathlist = [path]" "tlists = [tl]"
    by (auto simp: recurse_union_children.simps split: sum.splits)
  from recurse_set_operations_leaf_path [OF r] p show ?case by simp
next
  case (SetOperationStmt opk al l r ctys ccolls gcl)
  from SetOperationStmt.prems(2) have
    c: "opk = top_op top_union \<and> (al = top_all top_union \<or> al)
        \<and> ctys = top_colTypes top_union"
    and sl: "same_union top_union l" and sr: "same_union top_union r"
    by simp_all
  from SetOperationStmt.prems(1) c obtain pl1 tl1 pl2 tl2 where
    l: "recurse_union_children env cfg (Suc depth) tf l top_union refnames = Inr (pl1, tl1)"
    and r: "recurse_union_children env cfg (Suc depth) tf r top_union refnames = Inr (pl2, tl2)"
    and p: "pathlist = pl1 @ pl2" "tlists = tl1 @ tl2"
    by (auto simp: recurse_union_children.simps split: sum.splits)
  from SetOperationStmt.IH(1) [OF l sl] SetOperationStmt.IH(2) [OF r sr] p
  show ?case by simp
next
  case (OtherSetOpNode tag)
  from OtherSetOpNode.prems(1) show ?case
    by (auto simp: recurse_union_children.simps recurse_set_operations.simps
        split: sum.splits if_splits)
qed

text \<open>
  C3, as amended. When every combine node below a UNION node passes the folding test
  of \<^verbatim>\<open>recurse_union_children\<close> (it is a UNION with the declared column types of the
  top node, and it is UNION ALL or has the ALL flag of the top node), the path that
  \<^verbatim>\<open>generate_union_path\<close> returns has one Append whose inputs are as many as the
  leaves of the tree, with no de-duplication step for UNION ALL and exactly one for
  UNION. Outside the dispatcher role the inputs are the projected scans of the leaves,
  in the order of the tree.
\<close>

theorem union_flattening:
  assumes "generate_union_path env cfg depth tf (SetOperationStmt opk al l r ctys ccolls gcl)
             refnames want = Inr (path, tlist, ngroups)"
    and "same_union \<lparr>top_op = opk, top_all = al, top_colTypes = ctys,
                      top_colCollations = ccolls\<rparr> l"
    and "same_union \<lparr>top_op = opk, top_all = al, top_colTypes = ctys,
                      top_colCollations = ccolls\<rparr> r"
  shows "length (append_inputs path) = length (setop_leaves l) + length (setop_leaves r)
       \<and> dedup_steps path = (if al then 0 else 1)
       \<and> (Gp_role cfg \<noteq> GP_ROLE_DISPATCH
          \<longrightarrow> map scanned_rel (append_inputs path) = map Some (setop_leaves l @ setop_leaves r))"
proof -
  let ?top = "\<lparr>top_op = opk, top_all = al, top_colTypes = ctys, top_colCollations = ccolls\<rparr>"
  let ?cur = "if \<not> al then 0 else tf"
  from assms(1) obtain pl1 tl1 where
    l: "recurse_union_children env cfg (Suc depth) ?cur l ?top refnames = Inr (pl1, tl1)"
    by (auto simp: generate_union_path.simps Let_def split: sum.splits)
  from assms(1) l obtain pl2 tl2 where
    r: "recurse_union_children env cfg (Suc depth) ?cur r ?top refnames = Inr (pl2, tl2)"
    by (auto simp: generate_union_path.simps Let_def split: sum.splits)
  from assms(1) l r have
    a: "generate_union_path_append env cfg ?cur al ctys ccolls gcl (pl1 @ pl2) (tl1 @ tl2)
          refnames want = Inr (path, tlist, ngroups)"
    by (simp add: generate_union_path.simps Let_def)
  note fl = recurse_union_children_flatten [OF l assms(2)]
  note fr = recurse_union_children_flatten [OF r assms(3)]
  from fl fr have len: "length (pl1 @ pl2) = length (setop_leaves l) + length (setop_leaves r)"
    by (metis length_append length_map)
  note sh = generate_union_path_append_shape [OF a]
  from sh len have "length (append_inputs path)
      = length (setop_leaves l) + length (setop_leaves r)"
    by (simp add: length_cdb_decide_approach)
  moreover from sh have "dedup_steps path = (if al then 0 else 1)" by simp
  moreover have "Gp_role cfg \<noteq> GP_ROLE_DISPATCH
      \<longrightarrow> map scanned_rel (append_inputs path) = map Some (setop_leaves l @ setop_leaves r)"
  proof
    assume "Gp_role cfg \<noteq> GP_ROLE_DISPATCH"
    from cdb_decide_approach_not_dispatch [OF this] sh
    have "append_inputs path = pl1 @ pl2" by simp
    with fl fr show "map scanned_rel (append_inputs path)
        = map Some (setop_leaves l @ setop_leaves r)" by simp
  qed
  ultimately show ?thesis by blast
qed

lemma union_all_tree_planned:
  "plan_shape (generate_union_path sample_env roomy_config 0 0 union_all_tree sample_tlist
                 False) = Some (3, 0, [(0, 0), (0, 0), (0, 0)])"
  by code_simp

theorem union_flattening_witness:
  "\<exists>path tlist ngroups.
     generate_union_path sample_env roomy_config 0 0
       (SetOperationStmt SETOP_UNION True
          (SetOperationStmt SETOP_UNION True (RangeTblRef 1) (RangeTblRef 2)
             sample_leaf_types [0, 0] [])
          (RangeTblRef 3) sample_leaf_types [0, 0] [])
       sample_tlist False = Inr (path, tlist, ngroups)
     \<and> same_union \<lparr>top_op = SETOP_UNION, top_all = True, top_colTypes = sample_leaf_types,
                     top_colCollations = [0, 0]\<rparr>
          (SetOperationStmt SETOP_UNION True (RangeTblRef 1) (RangeTblRef 2)
             sample_leaf_types [0, 0] [])
     \<and> same_union \<lparr>top_op = SETOP_UNION, top_all = True, top_colTypes = sample_leaf_types,
                     top_colCollations = [0, 0]\<rparr> (RangeTblRef 3)
     \<and> length (append_inputs path) = 3 \<and> dedup_steps path = 0"
proof -
  let ?l = "SetOperationStmt SETOP_UNION True (RangeTblRef 1) (RangeTblRef 2)
              sample_leaf_types [0, 0] []"
  let ?top = "\<lparr>top_op = SETOP_UNION, top_all = True, top_colTypes = sample_leaf_types,
                top_colCollations = [0, 0]\<rparr>"
  from union_all_tree_planned obtain path tlist ngroups where
    g: "generate_union_path sample_env roomy_config 0 0
          (SetOperationStmt SETOP_UNION True ?l (RangeTblRef 3) sample_leaf_types [0, 0] [])
          sample_tlist False = Inr (path, tlist, ngroups)"
    by (auto simp: union_all_tree_def plan_shape_def split: sum.splits)
  have sl: "same_union ?top ?l" and sr: "same_union ?top (RangeTblRef 3)"
    by simp_all
  from union_flattening [OF g sl sr] g sl sr show ?thesis
    by (intro exI [of _ path] exI [of _ tlist] exI [of _ ngroups]) simp
qed

text \<open>
  The claim as written fails on \<^verbatim>\<open>(1 UNION 2) UNION ALL 3\<close>, three leaves with the
  same declared column types: the inner UNION has not the ALL flag of the top node
  and is not UNION ALL, so it is planned on its own. The top Append has two inputs, the
  first of which is a de-duplicated Append of its own.
\<close>

theorem union_flattening_counterexample:
  "length (setop_leaves union_mixed_tree) = 3
   \<and> plan_shape (generate_union_path sample_env roomy_config 0 0 union_mixed_tree sample_tlist
                   False) = Some (2, 0, [(2, 1), (0, 0)])"
  by code_simp



lemma map_sum_id_eq_Inr: "map_sum id f x = Inr y \<longleftrightarrow> (\<exists>z. x = Inr z \<and> f z = y)"
  by (cases x) auto




lemma generate_setop_tlist_no_columns:
  "generate_setop_tlist env [] ccolls flag vno hc input_tlist refnames =
     Inr (if flag \<ge> 0
          then [makeTargetEntry (T_Const (makeConst INT4OID (- 1) InvalidOid 4 flag False True))
                  1 ''flag'' True]
          else [])"
  by (simp add: generate_setop_tlist_def)

lemma recurse_set_operations_no_columns:
  assumes "recurse_set_operations env cfg depth tf setOp [] ccolls junkOK flag refnames want
             = Inr (path, tlist, ngroups)"
  shows "tlist = (if flag \<ge> 0
                  then [makeTargetEntry
                          (T_Const (makeConst INT4OID (- 1) InvalidOid 4 flag False True))
                          1 ''flag'' True]
                  else []) \<or> (flag < 0 \<and> (\<exists>opk al l r ctys cc gcl.
                                   setOp = SetOperationStmt opk al l r ctys cc gcl))"
proof (cases setOp)
  case (RangeTblRef rtindex)
  with assms show ?thesis
    by (auto simp: recurse_set_operations.simps generate_setop_tlist_no_columns
        split: if_splits sum.splits)
next
  case (SetOperationStmt opk al l r ctys cc gcl)
  with assms show ?thesis
    by (auto simp: recurse_set_operations.simps generate_setop_tlist_no_columns
        split: if_splits sum.splits)
next
  case (OtherSetOpNode tag)
  with assms show ?thesis
    by (auto simp: recurse_set_operations.simps split: if_splits)
qed

lemma append_typmods_sub_junk_only:
  "list_all resjunk subtlist \<Longrightarrow>
     append_typmods_sub env first curColType colindex subtlist colTypmods = Inr colTypmods"
  by (induction subtlist) simp_all

lemma append_typmods_junk_only:
  "list_all (list_all resjunk) input_tlists \<Longrightarrow>
     append_typmods env first colTypes input_tlists colTypmods = Inr colTypmods"
  by (induction input_tlists arbitrary: first) (simp_all add: append_typmods_sub_junk_only)

lemma generate_append_tlist_no_columns:
  "list_all (list_all resjunk) input_tlists \<Longrightarrow>
     generate_append_tlist env [] ccolls flag input_tlists refnames =
       Inr (if flag
            then [makeTargetEntry (T_Var (makeVar OUTER_VAR 1 INT4OID (- 1) InvalidOid 0))
                    1 ''flag'' True]
            else [])"
  by (simp add: generate_append_tlist_def append_typmods_junk_only)

lemma recurse_union_children_no_columns:
  "recurse_union_children env cfg depth tf setOp top_union refnames = Inr (pathlist, tlists)
   \<Longrightarrow> same_union top_union setOp \<Longrightarrow> top_colTypes top_union = []
   \<Longrightarrow> list_all (list_all resjunk) tlists"
proof (induction setOp arbitrary: depth pathlist tlists)
  case (RangeTblRef rtindex)
  from RangeTblRef.prems(1,3) obtain path tl ng where
    r: "recurse_set_operations env cfg (Suc depth) tf (RangeTblRef rtindex)
          [] (top_colCollations top_union) False (- 1) refnames False = Inr (path, tl, ng)"
    and p: "tlists = [tl]"
    by (auto simp: recurse_union_children.simps split: sum.splits)
  from recurse_set_operations_no_columns [OF r] p show ?case by simp
next
  case (SetOperationStmt opk al l r ctys ccolls gcl)
  from SetOperationStmt.prems(2) have
    c: "opk = top_op top_union \<and> (al = top_all top_union \<or> al)
        \<and> ctys = top_colTypes top_union"
    and sl: "same_union top_union l" and sr: "same_union top_union r"
    by simp_all
  from SetOperationStmt.prems(1) c obtain pl1 tl1 pl2 tl2 where
    l: "recurse_union_children env cfg (Suc depth) tf l top_union refnames = Inr (pl1, tl1)"
    and r: "recurse_union_children env cfg (Suc depth) tf r top_union refnames = Inr (pl2, tl2)"
    and p: "tlists = tl1 @ tl2"
    by (auto simp: recurse_union_children.simps split: sum.splits)
  from SetOperationStmt.IH(1) [OF l sl SetOperationStmt.prems(3)]
       SetOperationStmt.IH(2) [OF r sr SetOperationStmt.prems(3)] p
  show ?case by simp
next
  case (OtherSetOpNode tag)
  from OtherSetOpNode.prems(1) show ?case
    by (auto simp: recurse_union_children.simps recurse_set_operations.simps
        split: sum.splits if_splits)
qed

lemma make_union_unique_no_group_columns:
  "generate_setop_grouplist gcl tlist = Inr [] \<Longrightarrow>
     make_union_unique env cfg tf gcl path tlist =
       Inl (FeatureNotSupported ''UNION over no columns is not supported'' [])"
  by (simp add: make_union_unique_def)

text \<open>
  C7. A set operation over no columns (no declared column type, no grouping clause)
  fails with the unsupported-feature error that names the construct: in
  \<^verbatim>\<open>generate_nonunion_path\<close>, once both children are planned, with INTERSECT or
  EXCEPT; in the de-duplication step \<^verbatim>\<open>make_union_unique\<close> of a UNION, whenever the
  grouping list it derives is empty, with UNION; and so in \<^verbatim>\<open>generate_union_path\<close>
  for a plain UNION whose flattened children are planned.
\<close>

theorem setop_over_no_columns:
  "(recurse_set_operations env cfg (Suc depth) 0 l [] ccolls False 0 refnames True
      = Inr (lpath, ltl, Some dL)
    \<and> recurse_set_operations env cfg (Suc depth) 0 r [] ccolls False 1 refnames True
      = Inr (rpath, rtl, Some dR)
    \<longrightarrow> generate_nonunion_path env cfg depth tf (SetOperationStmt opk al l r [] ccolls [])
          refnames want =
        Inl (FeatureNotSupported
               (if opk = SETOP_INTERSECT then ''INTERSECT over no columns is not supported''
                else ''EXCEPT over no columns is not supported'') []))
   \<and> (generate_setop_grouplist gcl tlist = Inr []
      \<longrightarrow> make_union_unique env cfg tf gcl path tlist =
          Inl (FeatureNotSupported ''UNION over no columns is not supported'' []))
   \<and> (recurse_union_children env cfg (Suc depth) 0 l
        \<lparr>top_op = opk, top_all = False, top_colTypes = [], top_colCollations = ccolls\<rparr>
        refnames = Inr (pl1, tl1)
      \<and> recurse_union_children env cfg (Suc depth) 0 r
        \<lparr>top_op = opk, top_all = False, top_colTypes = [], top_colCollations = ccolls\<rparr>
        refnames = Inr (pl2, tl2)
      \<and> same_union \<lparr>top_op = opk, top_all = False, top_colTypes = [],
                      top_colCollations = ccolls\<rparr> l
      \<and> same_union \<lparr>top_op = opk, top_all = False, top_colTypes = [],
                      top_colCollations = ccolls\<rparr> r
      \<longrightarrow> generate_union_path env cfg depth tf (SetOperationStmt opk False l r [] ccolls [])
            refnames want =
          Inl (FeatureNotSupported ''UNION over no columns is not supported'' []))"
proof (intro conjI impI)
  assume a: "recurse_set_operations env cfg (Suc depth) 0 l [] ccolls False 0 refnames True
               = Inr (lpath, ltl, Some dL)
             \<and> recurse_set_operations env cfg (Suc depth) 0 r [] ccolls False 1 refnames True
               = Inr (rpath, rtl, Some dR)"
  from a recurse_set_operations_no_columns [of env cfg "Suc depth" 0 l ccolls False 0
         refnames True lpath ltl "Some dL"]
  have jl: "list_all resjunk ltl" by (simp add: makeTargetEntry_def)
  from a recurse_set_operations_no_columns [of env cfg "Suc depth" 0 r ccolls False 1
         refnames True rpath rtl "Some dR"]
  have jr: "list_all resjunk rtl" by (simp add: makeTargetEntry_def)
  from jl jr have
    t: "\<And>tls. tls = [ltl, rtl] \<or> tls = [rtl, ltl] \<Longrightarrow>
          generate_append_tlist env [] ccolls True tls refnames =
            Inr [makeTargetEntry (T_Var (makeVar OUTER_VAR 1 INT4OID (- 1) InvalidOid 0))
                   1 ''flag'' True]"
    by (auto simp: generate_append_tlist_no_columns)
  have g: "generate_setop_grouplist []
             [makeTargetEntry (T_Var (makeVar OUTER_VAR 1 INT4OID (- 1) InvalidOid 0))
                1 ''flag'' True] = Inr []"
    by (simp add: generate_setop_grouplist_def makeTargetEntry_def)
  from a have "generate_nonunion_path env cfg depth tf
                 (SetOperationStmt opk al l r [] ccolls []) refnames want =
               generate_nonunion_path_combine env cfg tf opk al [] ccolls [] lpath ltl dL
                 rpath rtl dR refnames want"
    by (simp add: generate_nonunion_path.simps)
  also from t g have "\<dots> = Inl (FeatureNotSupported
               (if opk = SETOP_INTERSECT then ''INTERSECT over no columns is not supported''
                else ''EXCEPT over no columns is not supported'') [])"
    by (simp add: generate_nonunion_path_combine_def Let_def)
  finally show "generate_nonunion_path env cfg depth tf
                  (SetOperationStmt opk al l r [] ccolls []) refnames want =
                Inl (FeatureNotSupported
                       (if opk = SETOP_INTERSECT
                        then ''INTERSECT over no columns is not supported''
                        else ''EXCEPT over no columns is not supported'') [])" .
next
  assume "generate_setop_grouplist gcl tlist = Inr []"
  then show "make_union_unique env cfg tf gcl path tlist =
               Inl (FeatureNotSupported ''UNION over no columns is not supported'' [])"
    by (rule make_union_unique_no_group_columns)
next
  let ?top = "\<lparr>top_op = opk, top_all = False, top_colTypes = [],
                top_colCollations = ccolls\<rparr>"
  assume a: "recurse_union_children env cfg (Suc depth) 0 l ?top refnames = Inr (pl1, tl1)
             \<and> recurse_union_children env cfg (Suc depth) 0 r ?top refnames = Inr (pl2, tl2)
             \<and> same_union ?top l \<and> same_union ?top r"
  from a recurse_union_children_no_columns [of env cfg "Suc depth" 0 l ?top refnames pl1 tl1]
       recurse_union_children_no_columns [of env cfg "Suc depth" 0 r ?top refnames pl2 tl2]
  have j: "list_all (list_all resjunk) (tl1 @ tl2)" by simp
  have g: "generate_setop_grouplist [] [] = Inr []"
    by (simp add: generate_setop_grouplist_def)
  from a have "generate_union_path env cfg depth tf
                 (SetOperationStmt opk False l r [] ccolls []) refnames want =
               generate_union_path_append env cfg 0 False [] ccolls [] (pl1 @ pl2)
                 (tl1 @ tl2) refnames want"
    by (simp add: generate_union_path.simps Let_def)
  also from j g have "\<dots> = Inl (FeatureNotSupported
                                   ''UNION over no columns is not supported'' [])"
    by (simp add: generate_union_path_append_def generate_append_tlist_no_columns
        make_union_unique_no_group_columns split: prod.splits)
  finally show "generate_union_path env cfg depth tf
                  (SetOperationStmt opk False l r [] ccolls []) refnames want =
                Inl (FeatureNotSupported ''UNION over no columns is not supported'' [])" .
qed

lemma no_column_children_planned:
  "map_sum id (\<lambda>(path, tlist, ngroups). ngroups)
     (recurse_set_operations sample_env roomy_config (Suc 0) 0 (RangeTblRef 1) [] [] False 0
        sample_tlist True) = Inr (Some 10)"
  "map_sum id (\<lambda>(path, tlist, ngroups). ngroups)
     (recurse_set_operations sample_env roomy_config (Suc 0) 0 (RangeTblRef 2) [] [] False 1
        sample_tlist True) = Inr (Some 20)"
  "map_sum id (\<lambda>(pathlist, tlists). length pathlist)
     (recurse_union_children sample_env roomy_config (Suc 0) 0 (RangeTblRef 1)
        \<lparr>top_op = SETOP_UNION, top_all = False, top_colTypes = [], top_colCollations = []\<rparr>
        sample_tlist) = Inr 1"
  "map_sum id (\<lambda>(pathlist, tlists). length pathlist)
     (recurse_union_children sample_env roomy_config (Suc 0) 0 (RangeTblRef 2)
        \<lparr>top_op = SETOP_UNION, top_all = False, top_colTypes = [], top_colCollations = []\<rparr>
        sample_tlist) = Inr 1"
  by code_simp+

theorem setop_over_no_columns_witness:
  "generate_nonunion_path sample_env roomy_config 0 0
     (SetOperationStmt SETOP_INTERSECT False (RangeTblRef 1) (RangeTblRef 2) [] [] [])
     sample_tlist False =
     Inl (FeatureNotSupported ''INTERSECT over no columns is not supported'' [])
   \<and> generate_nonunion_path sample_env roomy_config 0 0
       (SetOperationStmt SETOP_EXCEPT True (RangeTblRef 1) (RangeTblRef 2) [] [] [])
       sample_tlist False =
       Inl (FeatureNotSupported ''EXCEPT over no columns is not supported'' [])
   \<and> generate_setop_grouplist [] [] = Inr []
   \<and> make_union_unique sample_env roomy_config 0 [] (SubqueryScanPath 1) [] =
       Inl (FeatureNotSupported ''UNION over no columns is not supported'' [])
   \<and> generate_union_path sample_env roomy_config 0 0
       (SetOperationStmt SETOP_UNION False (RangeTblRef 1) (RangeTblRef 2) [] [] [])
       sample_tlist False =
       Inl (FeatureNotSupported ''UNION over no columns is not supported'' [])"
proof -
  let ?top = "\<lparr>top_op = SETOP_UNION, top_all = False, top_colTypes = [],
                top_colCollations = []\<rparr>"
  from no_column_children_planned(1) obtain lpath ltl where
    l: "recurse_set_operations sample_env roomy_config (Suc 0) 0 (RangeTblRef 1) [] [] False 0
          sample_tlist True = Inr (lpath, ltl, Some 10)"
    by (auto simp: map_sum_id_eq_Inr)
  from no_column_children_planned(2) obtain rpath rtl where
    r: "recurse_set_operations sample_env roomy_config (Suc 0) 0 (RangeTblRef 2) [] [] False 1
          sample_tlist True = Inr (rpath, rtl, Some 20)"
    by (auto simp: map_sum_id_eq_Inr)
  from no_column_children_planned(3) obtain pl1 tl1 where
    ul: "recurse_union_children sample_env roomy_config (Suc 0) 0 (RangeTblRef 1) ?top
           sample_tlist = Inr (pl1, tl1)"
    by (auto simp: map_sum_id_eq_Inr)
  from no_column_children_planned(4) obtain pl2 tl2 where
    ur: "recurse_union_children sample_env roomy_config (Suc 0) 0 (RangeTblRef 2) ?top
           sample_tlist = Inr (pl2, tl2)"
    by (auto simp: map_sum_id_eq_Inr)
  have g: "generate_setop_grouplist [] [] = Inr []"
    by (simp add: generate_setop_grouplist_def)
  have s: "same_union ?top (RangeTblRef 1)" "same_union ?top (RangeTblRef 2)"
    by simp_all
  note i = setop_over_no_columns [of sample_env roomy_config 0 "RangeTblRef 1" "[]" sample_tlist
      lpath ltl 10 "RangeTblRef 2" rpath rtl 20 0 SETOP_INTERSECT False False "[]" "[]"
      "SubqueryScanPath 1" pl1 tl1 pl2 tl2]
  note e = setop_over_no_columns [of sample_env roomy_config 0 "RangeTblRef 1" "[]" sample_tlist
      lpath ltl 10 "RangeTblRef 2" rpath rtl 20 0 SETOP_EXCEPT True False "[]" "[]"
      "SubqueryScanPath 1" pl1 tl1 pl2 tl2]
  note u = setop_over_no_columns [of sample_env roomy_config 0 "RangeTblRef 1" "[]" sample_tlist
      lpath ltl 10 "RangeTblRef 2" rpath rtl 20 0 SETOP_UNION False False "[]" "[]"
      "SubqueryScanPath 1" pl1 tl1 pl2 tl2]
  from i l r have "generate_nonunion_path sample_env roomy_config 0 0
      (SetOperationStmt SETOP_INTERSECT False (RangeTblRef 1) (RangeTblRef 2) [] [] [])
      sample_tlist False =
      Inl (FeatureNotSupported ''INTERSECT over no columns is not supported'' [])"
    by simp
  moreover from e l r have "generate_nonunion_path sample_env roomy_config 0 0
      (SetOperationStmt SETOP_EXCEPT True (RangeTblRef 1) (RangeTblRef 2) [] [] [])
      sample_tlist False =
      Inl (FeatureNotSupported ''EXCEPT over no columns is not supported'' [])"
    by simp
  moreover from u g have "make_union_unique sample_env roomy_config 0 [] (SubqueryScanPath 1) []
      = Inl (FeatureNotSupported ''UNION over no columns is not supported'' [])"
    by simp
  moreover from u ul ur s have "generate_union_path sample_env roomy_config 0 0
      (SetOperationStmt SETOP_UNION False (RangeTblRef 1) (RangeTblRef 2) [] [] [])
      sample_tlist False =
      Inl (FeatureNotSupported ''UNION over no columns is not supported'' [])"
    by simp
  ultimately show ?thesis using g by simp
qed

subsection \<open>Inheritance expansion\<close>

lemma make_inh_translation_list_loop_vars:
  "make_inh_translation_list_loop same new_attrs new_relname newvarno old_attrs old_attno vars
     = Inr translated
   \<Longrightarrow> (\<And>n. Some n \<in> set vars \<Longrightarrow> \<exists>var. n = T_Var var \<and> 1 \<le> varattno var)
   \<Longrightarrow> Some n \<in> set translated \<Longrightarrow> \<exists>var. n = T_Var var \<and> 1 \<le> varattno var"
proof (induction same new_attrs new_relname newvarno old_attrs old_attno vars
       rule: make_inh_translation_list_loop.induct)
  case (1 same new_attrs new_relname newvarno old_attno vars)
  then show ?case by simp
next
  case (2 same new_attrs new_relname newvarno att old_attrs old_attno vars)
  show ?case
  proof (cases "attisdropped att")
    case True
    with "2.prems"(1) have
      r: "make_inh_translation_list_loop same new_attrs new_relname newvarno old_attrs
            (Suc old_attno) (vars @ [None]) = Inr translated"
      by simp
    from "2.prems"(2) have
      v: "\<And>n. Some n \<in> set (vars @ [None]) \<Longrightarrow> \<exists>var. n = T_Var var \<and> 1 \<le> varattno var"
      by auto
    from "2.IH"(1) [OF True r v "2.prems"(3)] show ?thesis .
  next
    case False
    note nd = this
    show ?thesis
    proof (cases same)
      case True
      let ?v = "Some (T_Var (makeVar newvarno (int old_attno + 1) (atttypid att)
                               (atttypmod att) (attcollation att) 0))"
      from nd True "2.prems"(1) have
        r: "make_inh_translation_list_loop same new_attrs new_relname newvarno old_attrs
              (Suc old_attno) (vars @ [?v]) = Inr translated"
        by simp
      from "2.prems"(2) have
        v: "\<And>n. Some n \<in> set (vars @ [?v]) \<Longrightarrow> \<exists>var. n = T_Var var \<and> 1 \<le> varattno var"
        by (auto simp: makeVar_def)
      from "2.IH"(2) [OF nd True r v "2.prems"(3)] show ?thesis .
    next
      case False
      let ?found = "if old_attno < length new_attrs
                       \<and> \<not> attisdropped (new_attrs ! old_attno)
                       \<and> attname att = attname (new_attrs ! old_attno)
                    then Some old_attno
                    else search_new_attno (attname att) new_attrs 0"
      from nd False "2.prems"(1) obtain new_attno where
        f: "?found = Some new_attno"
        by (cases ?found) (simp_all del: search_new_attno.simps)
      let ?v = "Some (T_Var (makeVar newvarno (int new_attno + 1) (atttypid att)
                               (atttypmod att) (attcollation att) 0))"
      from nd False f "2.prems"(1) have
        t: "\<not> (atttypid att \<noteq> atttypid (new_attrs ! new_attno)
              \<or> atttypmod att \<noteq> atttypmod (new_attrs ! new_attno))"
        and c: "\<not> attcollation att \<noteq> attcollation (new_attrs ! new_attno)"
        by (auto split: if_splits)
      from nd False f t c "2.prems"(1) have
        r: "make_inh_translation_list_loop same new_attrs new_relname newvarno old_attrs
              (Suc old_attno) (vars @ [?v]) = Inr translated"
        by (simp del: search_new_attno.simps)
      from "2.prems"(2) have
        v: "\<And>n. Some n \<in> set (vars @ [?v]) \<Longrightarrow> \<exists>var. n = T_Var var \<and> 1 \<le> varattno var"
        by (auto simp: makeVar_def)
      from "2.IH"(3) [OF nd False f t c r v "2.prems"(3)] show ?thesis .
    qed
  qed
qed

lemma make_inh_translation_list_vars:
  assumes "make_inh_translation_list oldrelation newrelation newvarno = Inr translated"
    and "Some n \<in> set translated"
  shows "\<exists>var. n = T_Var var \<and> 1 \<le> varattno var"
  using make_inh_translation_list_loop_vars [OF assms(1) [unfolded make_inh_translation_list_def]
          _ assms(2)]
  by simp

lemma translate_sys_privs_result:
  "(\<And>a. a \<in> set attnos \<Longrightarrow> 0 \<le> a - fl) \<Longrightarrow>
     translate_sys_privs fl parent_privs attnos child_privs =
       Inr (child_privs \<union> {x. x \<in> parent_privs \<and> (\<exists>a \<in> set attnos. x = a - fl)})"
proof (induction attnos arbitrary: child_privs)
  case Nil
  then show ?case by simp
next
  case (Cons a attnos)
  from Cons.prems have "0 \<le> a - fl" by simp
  moreover from Cons.prems have "\<And>b. b \<in> set attnos \<Longrightarrow> 0 \<le> b - fl" by simp
  note Cons.IH [OF this]
  ultimately show ?case
    by (auto simp: bms_add_member_def)
qed

lemma translate_user_privs_result:
  assumes "\<And>n. Some n \<in> set translated \<Longrightarrow> \<exists>var. n = T_Var var \<and> 1 \<le> varattno var"
    and "fl < 0"
  shows "\<exists>child'. translate_user_privs fl parent_privs whole_row translated attno child_privs
                     = Inr child'
           \<and> child_privs \<subseteq> child'
           \<and> (\<forall>x \<in> child'. x \<in> child_privs
                  \<or> (\<exists>var. Some (T_Var var) \<in> set translated \<and> x = varattno var - fl))
           \<and> (whole_row \<longrightarrow> (\<forall>var. Some (T_Var var) \<in> set translated
                                   \<longrightarrow> varattno var - fl \<in> child'))"
  using assms(1)
proof (induction translated arbitrary: attno child_privs)
  case Nil
  then show ?case by simp
next
  case (Cons slot translated)
  from Cons.prems have
    rest: "\<And>n. Some n \<in> set translated \<Longrightarrow> \<exists>var. n = T_Var var \<and> 1 \<le> varattno var"
    by simp
  show ?case
  proof (cases slot)
    case None
    from Cons.IH [OF rest, of "attno + 1" child_privs] None show ?thesis
      by auto
  next
    case (Some n)
    with Cons.prems obtain var where n: "n = T_Var var" and pos: "1 \<le> varattno var"
      by auto
    from pos assms(2) have nn: "\<not> varattno var - fl < 0" by simp
    show ?thesis
    proof (cases "whole_row \<or> (attno + 1) - fl \<in> parent_privs")
      case True
      from Cons.IH [OF rest, of "attno + 1" "insert (varattno var - fl) child_privs"]
      obtain child' where
        r: "translate_user_privs fl parent_privs whole_row translated (attno + 1)
              (insert (varattno var - fl) child_privs) = Inr child'"
        and s: "insert (varattno var - fl) child_privs \<subseteq> child'"
        and o: "\<forall>x \<in> child'. x \<in> insert (varattno var - fl) child_privs
                  \<or> (\<exists>v. Some (T_Var v) \<in> set translated \<and> x = varattno v - fl)"
        and w: "whole_row \<longrightarrow> (\<forall>v. Some (T_Var v) \<in> set translated
                                   \<longrightarrow> varattno v - fl \<in> child')"
        by blast
      from True nn r Some n have
        "translate_user_privs fl parent_privs whole_row (slot # translated) attno child_privs
           = Inr child'"
        by (simp add: bms_add_member_def)
      moreover from s have "child_privs \<subseteq> child'" by blast
      moreover from o Some n have
        "\<forall>x \<in> child'. x \<in> child_privs
           \<or> (\<exists>v. Some (T_Var v) \<in> set (slot # translated) \<and> x = varattno v - fl)"
        by auto
      moreover from w s Some n have
        "whole_row \<longrightarrow> (\<forall>v. Some (T_Var v) \<in> set (slot # translated)
                           \<longrightarrow> varattno v - fl \<in> child')"
        by auto
      ultimately show ?thesis by blast
    next
      case False
      from Cons.IH [OF rest, of "attno + 1" child_privs]
      obtain child' where
        r: "translate_user_privs fl parent_privs whole_row translated (attno + 1) child_privs
              = Inr child'"
        and s: "child_privs \<subseteq> child'"
        and o: "\<forall>x \<in> child'. x \<in> child_privs
                  \<or> (\<exists>v. Some (T_Var v) \<in> set translated \<and> x = varattno v - fl)"
        by blast
      from False r Some n have
        "translate_user_privs fl parent_privs whole_row (slot # translated) attno child_privs
           = Inr child'"
        by simp
      moreover from o have
        "\<forall>x \<in> child'. x \<in> child_privs
           \<or> (\<exists>v. Some (T_Var v) \<in> set (slot # translated) \<and> x = varattno v - fl)"
        by auto
      moreover from False have "\<not> whole_row" by simp
      ultimately show ?thesis using s by blast
    qed
  qed
qed

text \<open>
  C9. For a translation list built by \<^verbatim>\<open>make_inh_translation_list\<close> (every live slot
  is a plain column reference to a user column of the child), with the system
  attribute numbers below zero: \<^verbatim>\<open>translate_col_privs\<close> returns a bitmask; if the
  parent's bitmask has the whole-row bit, the child's has the bit of the target
  column of every live slot; the child's whole-row bit is not set; and the bit of a
  system attribute is set in the child's bitmask exactly when it is set in the
  parent's.
\<close>

theorem translate_col_privs_whole_row:
  assumes "make_inh_translation_list oldrelation newrelation newvarno = Inr translated"
    and "FirstLowInvalidHeapAttributeNumber cat < 0"
  shows "\<exists>child_privs.
           translate_col_privs cat parent_privs translated = Inr child_privs
           \<and> (InvalidAttrNumber - FirstLowInvalidHeapAttributeNumber cat \<in> parent_privs
              \<longrightarrow> (\<forall>var. Some (T_Var var) \<in> set translated
                     \<longrightarrow> varattno var - FirstLowInvalidHeapAttributeNumber cat \<in> child_privs))
           \<and> InvalidAttrNumber - FirstLowInvalidHeapAttributeNumber cat \<notin> child_privs
           \<and> (\<forall>attno. FirstLowInvalidHeapAttributeNumber cat < attno \<and> attno < 0
                \<longrightarrow> (attno - FirstLowInvalidHeapAttributeNumber cat \<in> child_privs
                     \<longleftrightarrow> attno - FirstLowInvalidHeapAttributeNumber cat \<in> parent_privs))"
proof -
  let ?fl = "FirstLowInvalidHeapAttributeNumber cat"
  let ?sys = "{x. x \<in> parent_privs \<and> (\<exists>a \<in> set [?fl + 1 .. - 1]. x = a - ?fl)}"
  have sys: "translate_sys_privs ?fl parent_privs [?fl + 1 .. - 1] {} = Inr ({} \<union> ?sys)"
    by (rule translate_sys_privs_result) simp
  note good = make_inh_translation_list_vars [OF assms(1)]
  from translate_user_privs_result [OF good assms(2), of translated parent_privs
         "InvalidAttrNumber - ?fl \<in> parent_privs" InvalidAttrNumber ?sys]
  obtain child' where
    r: "translate_user_privs ?fl parent_privs (InvalidAttrNumber - ?fl \<in> parent_privs)
          translated InvalidAttrNumber ?sys = Inr child'"
    and s: "?sys \<subseteq> child'"
    and o: "\<forall>x \<in> child'. x \<in> ?sys
              \<or> (\<exists>var. Some (T_Var var) \<in> set translated \<and> x = varattno var - ?fl)"
    and w: "InvalidAttrNumber - ?fl \<in> parent_privs
              \<longrightarrow> (\<forall>var. Some (T_Var var) \<in> set translated \<longrightarrow> varattno var - ?fl \<in> child')"
    by blast
  from sys r have t: "translate_col_privs cat parent_privs translated = Inr child'"
    by (simp add: translate_col_privs_def Let_def)
  have nw: "InvalidAttrNumber - ?fl \<notin> child'"
  proof
    assume "InvalidAttrNumber - ?fl \<in> child'"
    with o have "InvalidAttrNumber - ?fl \<in> ?sys
        \<or> (\<exists>var. Some (T_Var var) \<in> set translated
               \<and> InvalidAttrNumber - ?fl = varattno var - ?fl)"
      by blast
    then show False
    proof
      assume "InvalidAttrNumber - ?fl \<in> ?sys"
      then show False by (auto simp: InvalidAttrNumber_def)
    next
      assume "\<exists>var. Some (T_Var var) \<in> set translated
                \<and> InvalidAttrNumber - ?fl = varattno var - ?fl"
      then obtain var where m: "Some (T_Var var) \<in> set translated"
        and e: "InvalidAttrNumber - ?fl = varattno var - ?fl" by blast
      from good [OF m] have "1 \<le> varattno var" by simp
      with e show False by (simp add: InvalidAttrNumber_def)
    qed
  qed
  have sysbits: "\<forall>attno. ?fl < attno \<and> attno < 0
                   \<longrightarrow> (attno - ?fl \<in> child' \<longleftrightarrow> attno - ?fl \<in> parent_privs)"
  proof (intro allI impI)
    fix attno
    assume b: "?fl < attno \<and> attno < 0"
    show "attno - ?fl \<in> child' \<longleftrightarrow> attno - ?fl \<in> parent_privs"
    proof
      assume "attno - ?fl \<in> child'"
      with o have "attno - ?fl \<in> ?sys
          \<or> (\<exists>var. Some (T_Var var) \<in> set translated \<and> attno - ?fl = varattno var - ?fl)"
        by blast
      then show "attno - ?fl \<in> parent_privs"
      proof
        assume "attno - ?fl \<in> ?sys"
        then show ?thesis by simp
      next
        assume "\<exists>var. Some (T_Var var) \<in> set translated
                  \<and> attno - ?fl = varattno var - ?fl"
        then obtain var where m: "Some (T_Var var) \<in> set translated"
          and e: "attno - ?fl = varattno var - ?fl" by blast
        from good [OF m] have "1 \<le> varattno var" by simp
        with e b show ?thesis by simp
      qed
    next
      assume "attno - ?fl \<in> parent_privs"
      with b have "attno - ?fl \<in> ?sys" by auto
      with s show "attno - ?fl \<in> child'" by blast
    qed
  qed
  from t w nw sysbits show ?thesis by blast
qed

lemma sample_translation:
  "make_inh_translation_list (sample_relation 100) (sample_relation 101) 3 =
     Inr [Some (T_Var (makeVar 3 1 23 (- 1) 0 0)), None,
          Some (T_Var (makeVar 3 2 25 (- 1) 100 0))]"
  by code_simp

lemma sample_privs:
  "translate_col_privs sample_catalog {8, 3}
     [Some (T_Var (makeVar 3 1 23 (- 1) 0 0)), None,
      Some (T_Var (makeVar 3 2 25 (- 1) 100 0))] = Inr {3, 9, 10}"
  by code_simp

theorem translate_col_privs_whole_row_witness:
  "make_inh_translation_list (sample_relation 100) (sample_relation 101) 3 =
     Inr [Some (T_Var (makeVar 3 1 23 (- 1) 0 0)), None,
          Some (T_Var (makeVar 3 2 25 (- 1) 100 0))]
   \<and> FirstLowInvalidHeapAttributeNumber sample_catalog < 0
   \<and> InvalidAttrNumber - FirstLowInvalidHeapAttributeNumber sample_catalog \<in> {8, 3}
   \<and> (\<exists>child_privs.
        translate_col_privs sample_catalog {8, 3}
          [Some (T_Var (makeVar 3 1 23 (- 1) 0 0)), None,
           Some (T_Var (makeVar 3 2 25 (- 1) 100 0))] = Inr child_privs
        \<and> 9 \<in> child_privs \<and> 10 \<in> child_privs \<and> 8 \<notin> child_privs \<and> 3 \<in> child_privs
        \<and> 4 \<notin> child_privs)"
proof -
  have fl: "FirstLowInvalidHeapAttributeNumber sample_catalog = - 8"
    by (simp add: sample_catalog_def)
  then have neg: "FirstLowInvalidHeapAttributeNumber sample_catalog < 0" by simp
  from translate_col_privs_whole_row [OF sample_translation neg, of "{8, 3}"] fl
  obtain child_privs where
    t: "translate_col_privs sample_catalog {8, 3}
          [Some (T_Var (makeVar 3 1 23 (- 1) 0 0)), None,
           Some (T_Var (makeVar 3 2 25 (- 1) 100 0))] = Inr child_privs"
    and w: "\<forall>var. Some (T_Var var) \<in> set [Some (T_Var (makeVar 3 1 23 (- 1) 0 0)), None,
                                            Some (T_Var (makeVar 3 2 25 (- 1) 100 0))]
              \<longrightarrow> varattno var + 8 \<in> child_privs"
    and nw: "8 \<notin> child_privs"
    and sb: "\<forall>attno. - 8 < attno \<and> attno < 0
               \<longrightarrow> (attno + 8 \<in> child_privs \<longleftrightarrow> attno + 8 \<in> {8, 3 :: int})"
    by (auto simp: InvalidAttrNumber_def)
  from w have "varattno (makeVar 3 1 23 (- 1) 0 0) + 8 \<in> child_privs"
    and "varattno (makeVar 3 2 25 (- 1) 100 0) + 8 \<in> child_privs"
    by simp_all
  then have c: "9 \<in> child_privs" "10 \<in> child_privs"
    by (simp_all add: makeVar_def)
  from sb [rule_format, of "- 5"] have s3: "3 \<in> child_privs" by simp
  from sb [rule_format, of "- 4"] have s4: "4 \<notin> child_privs" by simp
  from sample_translation neg fl t c nw s3 s4 show ?thesis
    by (simp add: InvalidAttrNumber_def)
qed

lemma expand_children_all_skipped:
  "(\<And>c. c \<in> set inhOIDs \<Longrightarrow> child_is_skipped cat parentOID c) \<Longrightarrow>
     expand_children cat rtindex rte parentOID (rel_is_partitioned cat parentOID) oldrc
       oldrelation inhOIDs proot appinfos child_relids = Inr (proot, appinfos, child_relids)"
proof (induction inhOIDs)
  case Nil
  then show ?case by simp
next
  case (Cons c inhOIDs)
  from Cons.prems have "child_is_skipped cat parentOID c" by simp
  moreover from Cons.prems have "\<And>d. d \<in> set inhOIDs \<Longrightarrow> child_is_skipped cat parentOID d"
    by simp
  note Cons.IH [OF this]
  ultimately show ?case
    by (auto simp: child_is_skipped_def Let_def)
qed

lemma expand_children_count:
  "expand_children cat rtindex rte parentOID (rel_is_partitioned cat parentOID) oldrc
     oldrelation inhOIDs proot appinfos child_relids = Inr (proot', appinfos', child_relids')
   \<Longrightarrow> length appinfos' =
         length appinfos + length (filter (\<lambda>c. \<not> child_is_skipped cat parentOID c) inhOIDs)
       \<and> append_rel_list proot' = append_rel_list proot
       \<and> length (rtable proot) \<le> length (rtable proot')
       \<and> (\<forall>i < length (rtable proot). rtable proot' ! i = rtable proot ! i)"
proof (induction inhOIDs arbitrary: proot appinfos child_relids)
  case Nil
  then show ?case by simp
next
  case (Cons c inhOIDs)
  show ?case
  proof (cases "child_is_skipped cat parentOID c")
    case True
    with Cons.prems have
      "expand_children cat rtindex rte parentOID (rel_is_partitioned cat parentOID) oldrc
         oldrelation inhOIDs proot appinfos child_relids = Inr (proot', appinfos', child_relids')"
      by (auto simp: child_is_skipped_def Let_def split: if_splits)
    from Cons.IH [OF this] True show ?thesis by simp
  next
    case False
    let ?newrelation = "if c \<noteq> parentOID then heap_open cat c else oldrelation"
    from False have
      k1: "\<not> (c \<noteq> parentOID \<and> rd_other_temp ?newrelation)"
      and k2: "\<not> (rel_is_partitioned cat parentOID \<and> \<not> rel_is_leaf_partition cat c)"
      by (auto simp: child_is_skipped_def)
    from Cons.prems k1 k2 obtain proot1 appinfo child_relids1 where
      r: "expand_children cat rtindex rte parentOID (rel_is_partitioned cat parentOID) oldrc
            oldrelation inhOIDs proot1 (appinfos @ [appinfo]) child_relids1
          = Inr (proot', appinfos', child_relids')"
      and a: "append_rel_list proot1 = append_rel_list proot"
      and t: "\<exists>childrte. rtable proot1 = rtable proot @ [childrte]"
      by (simp add: Let_def split: sum.splits if_splits option.splits)
    from Cons.IH [OF r] a t False show ?thesis
      by (auto simp: nth_append)
  qed
qed

lemma rtable_clear_inh:
  "0 < rtindex \<Longrightarrow> rtindex \<le> length (rtable proot) \<Longrightarrow>
     \<not> inh (rtable (clear_inh proot rtindex) ! (rtindex - 1))
     \<and> append_rel_list (clear_inh proot rtindex) = append_rel_list proot"
  by (simp add: clear_inh_def)


text \<open>
  C2, as amended. For a range-table entry that is marked as an inheritance parent, is
  a plain relation and has a subclass: (1) when the descendant lookup returns three
  ids of which exactly one fails the temp-table/leaf-partition filter and no schema
  error is raised, exactly two translation records are registered and the entry stays
  marked; (2) when the filter leaves no id at all, the expansion returns without
  error, registers no record and clears the \<^verbatim>\<open>inh\<close> flag of the entry.
\<close>

theorem expand_inherited_rtentry_records:
  assumes "0 < rtindex" and "rtindex \<le> length (rtable proot)"
    and "inh (rtable proot ! (rtindex - 1))"
    and "rtekind (rtable proot ! (rtindex - 1)) = RTE_RELATION"
    and "parentOID = relid (rtable proot ! (rtindex - 1))"
    and "has_subclass cat parentOID"
    and "inhOIDs = find_all_inheritors cat parentOID (inh_lockmode proot rtindex)"
  shows "(length inhOIDs = 3
          \<and> length (filter (child_is_skipped cat parentOID) inhOIDs) = 1
          \<and> expand_inherited_rtentry cat proot rtindex = Inr proot'
          \<longrightarrow> length (append_rel_list proot') = length (append_rel_list proot) + 2
              \<and> inh (rtable proot' ! (rtindex - 1)))
       \<and> ((\<forall>c \<in> set inhOIDs. child_is_skipped cat parentOID c)
          \<longrightarrow> (\<exists>proot''. expand_inherited_rtentry cat proot rtindex = Inr proot''
                  \<and> append_rel_list proot'' = append_rel_list proot
                  \<and> \<not> inh (rtable proot'' ! (rtindex - 1))))"
proof (intro conjI impI)
  let ?rte = "rtable proot ! (rtindex - 1)"
  let ?oldrc = "get_plan_rowmark (rowMarks proot) rtindex"
  let ?root1 = "case ?oldrc of
                  None \<Rightarrow> proot
                | Some i \<Rightarrow> proot\<lparr>rowMarks := (rowMarks proot)
                                          [i := (rowMarks proot ! i)\<lparr>isParent := True\<rparr>]\<rparr>"
  let ?loop = "expand_children cat rtindex ?rte parentOID (rel_is_partitioned cat parentOID)
                 ?oldrc (heap_open cat parentOID) inhOIDs ?root1 [] {}"
  have r1: "rtable ?root1 = rtable proot" "append_rel_list ?root1 = append_rel_list proot"
    by (simp_all split: option.splits)
  {
    assume a: "length inhOIDs = 3
               \<and> length (filter (child_is_skipped cat parentOID) inhOIDs) = 1
               \<and> expand_inherited_rtentry cat proot rtindex = Inr proot'"
    from a assms obtain root2 appinfos child_relids where
      l: "?loop = Inr (root2, appinfos, child_relids)"
      by (cases ?loop) (auto simp: expand_inherited_rtentry_def Let_def)
    from expand_children_count [OF l] r1 have
      n: "length appinfos
            = length (filter (\<lambda>c. \<not> child_is_skipped cat parentOID c) inhOIDs)"
      and ap: "append_rel_list root2 = append_rel_list proot"
      and rt: "\<forall>i < length (rtable proot). rtable root2 ! i = rtable proot ! i"
      by simp_all
    from sum_length_filter_compl [of "child_is_skipped cat parentOID" inhOIDs] a n
    have two: "length appinfos = 2" by simp
    from two have ne: "appinfos \<noteq> []" by auto
    from a assms l ne have
      p: "append_rel_list proot' = append_rel_list root2 @ appinfos"
      and q: "rtable proot' = rtable root2"
      by (auto simp: expand_inherited_rtentry_def Let_def split: if_splits)
    from p ap two show "length (append_rel_list proot') = length (append_rel_list proot) + 2"
      by simp
    from q rt assms show "inh (rtable proot' ! (rtindex - 1))"
      by simp
  }
  {
    assume a: "\<forall>c \<in> set inhOIDs. child_is_skipped cat parentOID c"
    then have l: "?loop = Inr (?root1, [], {})"
      by (intro expand_children_all_skipped) simp
    let ?root3 = "if rel_is_partitioned cat parentOID then
                    ?root1\<lparr>dynamicScans := dynamicScans ?root1 @
                              [\<lparr>dsi_parentOid = parentOID, dsi_rtindex = rtindex,
                                dsi_hasSelector = False, dsi_children = {},
                                dsi_partKeyAttnos = rel_partition_key_attrs cat parentOID,
                                dsi_dynamicScanId = Suc (length (dynamicScans ?root1))\<rparr>]\<rparr>
                  else ?root1"
    have r3: "rtable ?root3 = rtable proot" "append_rel_list ?root3 = append_rel_list proot"
      using r1 by simp_all
    from assms l have
      e: "expand_inherited_rtentry cat proot rtindex =
            Inr (if length inhOIDs < 2 then clear_inh proot rtindex
                 else clear_inh ?root3 rtindex)"
      by (simp add: expand_inherited_rtentry_def Let_def)
    from rtable_clear_inh [of rtindex proot] rtable_clear_inh [of rtindex ?root3] assms r3
    have "append_rel_list (if length inhOIDs < 2 then clear_inh proot rtindex
                           else clear_inh ?root3 rtindex) = append_rel_list proot
          \<and> \<not> inh (rtable (if length inhOIDs < 2 then clear_inh proot rtindex
                             else clear_inh ?root3 rtindex) ! (rtindex - 1))"
      by (simp split: if_splits)
    with e show "\<exists>proot''. expand_inherited_rtentry cat proot rtindex = Inr proot''
                   \<and> append_rel_list proot'' = append_rel_list proot
                   \<and> \<not> inh (rtable proot'' ! (rtindex - 1))"
      by blast
  }
qed


lemma sample_expansion:
  "expansion_summary (expand_inherited_rtentry sample_catalog sample_root 1) 1
     = Some (2, True)"
  "expansion_summary
     (expand_inherited_rtentry (sample_catalog\<lparr>rel_is_leaf_partition := (\<lambda>oid. False)\<rparr>)
        sample_root 2) 2 = Some (0, False)"
  by code_simp+

lemma sample_inheritors:
  "find_all_inheritors sample_catalog 100 (inh_lockmode sample_root 1) = [100, 101, 102]"
  "filter (child_is_skipped sample_catalog 100) [100, 101, 102] = [102]"
  "find_all_inheritors (sample_catalog\<lparr>rel_is_leaf_partition := (\<lambda>oid. False)\<rparr>) 200
     (inh_lockmode sample_root 2) = [200, 201]"
  "filter (child_is_skipped (sample_catalog\<lparr>rel_is_leaf_partition := (\<lambda>oid. False)\<rparr>) 200)
     [200, 201] = [200, 201]"
  by code_simp+

lemma sample_root_entries:
  "rtable sample_root ! 0 = sample_rte 100" "rtable sample_root ! 1 = sample_rte 200"
  "length (rtable sample_root) = 2" "append_rel_list sample_root = []"
  "inh (sample_rte oid)" "rtekind (sample_rte oid) = RTE_RELATION" "relid (sample_rte oid) = oid"
  by (simp_all add: sample_root_def sample_rte_def)

theorem expand_inherited_rtentry_records_witness:
  "length (find_all_inheritors sample_catalog 100 (inh_lockmode sample_root 1)) = 3
   \<and> length (filter (child_is_skipped sample_catalog 100)
               (find_all_inheritors sample_catalog 100 (inh_lockmode sample_root 1))) = 1
   \<and> (\<exists>proot'. expand_inherited_rtentry sample_catalog sample_root 1 = Inr proot'
         \<and> length (append_rel_list proot') = 2 \<and> inh (rtable proot' ! 0))
   \<and> filter (child_is_skipped (sample_catalog\<lparr>rel_is_leaf_partition := (\<lambda>oid. False)\<rparr>) 200)
        (find_all_inheritors (sample_catalog\<lparr>rel_is_leaf_partition := (\<lambda>oid. False)\<rparr>) 200
           (inh_lockmode sample_root 2)) = [200, 201]
   \<and> (\<exists>proot''. expand_inherited_rtentry
                   (sample_catalog\<lparr>rel_is_leaf_partition := (\<lambda>oid. False)\<rparr>) sample_root 2
                 = Inr proot''
         \<and> append_rel_list proot'' = [] \<and> \<not> inh (rtable proot'' ! 1))"
proof -
  let ?cat2 = "sample_catalog\<lparr>rel_is_leaf_partition := (\<lambda>oid. False)\<rparr>"
  from sample_expansion(1) obtain proot' where
    e: "expand_inherited_rtentry sample_catalog sample_root 1 = Inr proot'"
    by (cases "expand_inherited_rtentry sample_catalog sample_root 1")
       (simp_all add: expansion_summary_def)
  have p1: "0 < (1 :: nat)" "0 < (2 :: nat)" by simp_all
  have p2: "1 \<le> length (rtable sample_root)" "2 \<le> length (rtable sample_root)"
    by (simp_all add: sample_root_def sample_rte_def)
  have p3: "inh (rtable sample_root ! (1 - 1))" "inh (rtable sample_root ! (2 - 1))"
    by (simp_all add: sample_root_def sample_rte_def)
  have p4: "rtekind (rtable sample_root ! (1 - 1)) = RTE_RELATION"
    "rtekind (rtable sample_root ! (2 - 1)) = RTE_RELATION"
    by (simp_all add: sample_root_def sample_rte_def)
  have p5: "100 = relid (rtable sample_root ! (1 - 1))"
    "200 = relid (rtable sample_root ! (2 - 1))"
    by (simp_all add: sample_root_def sample_rte_def)
  have p6: "has_subclass sample_catalog 100" "has_subclass ?cat2 200"
    by (simp_all add: sample_catalog_def)
  note p7 = sample_inheritors(1) [symmetric] sample_inheritors(3) [symmetric]
  note t1 = expand_inherited_rtentry_records
              [OF p1(1) p2(1) p3(1) p4(1) p5(1) p6(1) p7(1), of proot']
  note t2 = expand_inherited_rtentry_records
              [OF p1(2) p2(2) p3(2) p4(2) p5(2) p6(2) p7(2), of proot']
  have f1: "length (filter (child_is_skipped sample_catalog 100) [100, 101, 102]) = 1"
    by (simp only: sample_inheritors(2)) simp
  have c1: "length [100, 101, 102 :: nat] = 3
            \<and> length (filter (child_is_skipped sample_catalog 100) [100, 101, 102]) = 1
            \<and> expand_inherited_rtentry sample_catalog sample_root 1 = Inr proot'"
    by (intro conjI; (rule f1 | rule e | simp))
  from t1 c1 have a: "length (append_rel_list proot') = length (append_rel_list sample_root) + 2
                      \<and> inh (rtable proot' ! (1 - 1))"
    by blast
  have sk: "\<forall>c \<in> set [200, 201]. child_is_skipped ?cat2 200 c"
    using sample_inheritors(4) by (metis filter_id_conv)
  from t2 sk obtain proot'' where
    b: "expand_inherited_rtentry ?cat2 sample_root 2 = Inr proot''"
       "append_rel_list proot'' = append_rel_list sample_root"
       "\<not> inh (rtable proot'' ! (2 - 1))"
    by blast
  have l1: "length (find_all_inheritors sample_catalog 100 (inh_lockmode sample_root 1)) = 3"
    by (simp only: sample_inheritors(1)) simp
  have l2: "length (filter (child_is_skipped sample_catalog 100)
              (find_all_inheritors sample_catalog 100 (inh_lockmode sample_root 1))) = 1"
    by (simp only: sample_inheritors(1) sample_inheritors(2)) simp
  have l3: "filter (child_is_skipped ?cat2 200)
              (find_all_inheritors ?cat2 200 (inh_lockmode sample_root 2)) = [200, 201]"
    by (simp only: sample_inheritors(3) sample_inheritors(4))
  from a e have x1: "\<exists>proot'. expand_inherited_rtentry sample_catalog sample_root 1 = Inr proot'
                       \<and> length (append_rel_list proot') = 2 \<and> inh (rtable proot' ! 0)"
    by (simp add: sample_root_def)
  from b have x2: "\<exists>proot''. expand_inherited_rtentry ?cat2 sample_root 2 = Inr proot''
                     \<and> append_rel_list proot'' = [] \<and> \<not> inh (rtable proot'' ! 1)"
    by (simp add: sample_root_def)
  from l1 l2 l3 x1 x2 show ?thesis by blast
qed

text \<open>
  The claim as written fails when the filter leaves exactly one record. The
  partitioned table 200 has the single leaf partition 201: the lookup returns the two
  ids 200 and 201, the parent is dropped by the leaf-partition filter, and the one
  record that remains is registered, the entry staying marked.
\<close>

theorem expand_inherited_rtentry_counterexample:
  "find_all_inheritors sample_catalog 200 (inh_lockmode sample_root 2) = [200, 201]
   \<and> filter (child_is_skipped sample_catalog 200) [200, 201] = [200]
   \<and> expansion_summary (expand_inherited_rtentry sample_catalog sample_root 2) 2
       = Some (1, True)"
  by code_simp

end
